theory Spec2Isabelle
  imports Complex_Main "HOL-Library.AList"
begin

section \<open>Path validation: \<^verbatim>\<open>PROPERTY_PATH_REGEX\<close> and \<^verbatim>\<open>isValidPropertyPath\<close>\<close>

text \<open>
  \<^verbatim>\<open>src/core/document-change-parser.ts\<close> validates a path with an anchored regular
  expression. The pattern uses character classes, concatenation, \<^verbatim>\<open>*\<close>, \<^verbatim>\<open>+\<close> and
  \<^verbatim>\<open>?\<close> only (no back-references, no look-around), so \<^verbatim>\<open>RegExp.prototype.test\<close> on
  \<^verbatim>\<open>^...$\<close> succeeds exactly when the whole string is matched. The matcher below
  decides that by derivatives; the regex carries no \<^verbatim>\<open>g\<close> flag, so \<^verbatim>\<open>test\<close> keeps no
  state between calls.
\<close>

datatype regex =
    Never
  | Empty
  | Cls "char \<Rightarrow> bool"
  | Cat regex regex
  | Or regex regex
  | Rep regex
  | Rep1 regex
  | Opt regex

fun nullable :: "regex \<Rightarrow> bool" where
  "nullable Never = False"
| "nullable Empty = True"
| "nullable (Cls p) = False"
| "nullable (Cat r s) = (nullable r \<and> nullable s)"
| "nullable (Or r s) = (nullable r \<or> nullable s)"
| "nullable (Rep r) = True"
| "nullable (Rep1 r) = nullable r"
| "nullable (Opt r) = True"

fun deriv :: "char \<Rightarrow> regex \<Rightarrow> regex" where
  "deriv c Never = Never"
| "deriv c Empty = Never"
| "deriv c (Cls p) = (if p c then Empty else Never)"
| "deriv c (Cat r s) =
     (if nullable r then Or (Cat (deriv c r) s) (deriv c s) else Cat (deriv c r) s)"
| "deriv c (Or r s) = Or (deriv c r) (deriv c s)"
| "deriv c (Rep r) = Cat (deriv c r) (Rep r)"
| "deriv c (Rep1 r) = Cat (deriv c r) (Rep r)"
| "deriv c (Opt r) = deriv c r"

text \<open>\<^verbatim>\<open>new RegExp('^' + r + '$').test(s)\<close>.\<close>

fun regex_test :: "regex \<Rightarrow> string \<Rightarrow> bool" where
  "regex_test r [] = nullable r"
| "regex_test r (c # cs) = regex_test (deriv c r) cs"

text \<open>The character classes \<^verbatim>\<open>[a-zA-Z_$]\<close>, \<^verbatim>\<open>[0-9a-zA-Z_$]\<close> and \<^verbatim>\<open>\d\<close> (without the
  \<^verbatim>\<open>u\<close> flag \<^verbatim>\<open>\d\<close> is \<^verbatim>\<open>[0-9]\<close>).\<close>

definition digit :: "char \<Rightarrow> bool" where
  "digit c = (c \<in> set ''0123456789'')"

definition ident_start :: "char \<Rightarrow> bool" where
  "ident_start c =
     (c \<in> set ''abcdefghijklmnopqrstuvwxyzABCDEFGHIJKLMNOPQRSTUVWXYZ_$'')"

definition ident_char :: "char \<Rightarrow> bool" where
  "ident_char c = (digit c \<or> ident_start c)"

definition lit :: "char \<Rightarrow> regex" where
  "lit c = Cls (\<lambda>x. x = c)"

text \<open>\<^verbatim>\<open>const VALID_IDENTIFIER = '([a-zA-Z_$][0-9a-zA-Z_$]*)(\\[\\d+\\])?'\<close>\<close>

definition VALID_IDENTIFIER :: regex where
  "VALID_IDENTIFIER =
     Cat (Cat (Cls ident_start) (Rep (Cls ident_char)))
         (Opt (Cat (lit CHR ''['') (Cat (Rep1 (Cls digit)) (lit CHR '']''))))"

text \<open>\<^verbatim>\<open>^(${VALID_IDENTIFIER})(\\.${VALID_IDENTIFIER})*(@-?\\d+)?$\<close>\<close>

definition PROPERTY_PATH_REGEX :: regex where
  "PROPERTY_PATH_REGEX =
     Cat VALID_IDENTIFIER
       (Cat (Rep (Cat (lit CHR ''.'') VALID_IDENTIFIER))
            (Opt (Cat (lit CHR ''@'') (Cat (Opt (lit CHR ''-'')) (Rep1 (Cls digit))))))"

definition isValidPropertyPath :: "string \<Rightarrow> bool" where
  "isValidPropertyPath path = regex_test PROPERTY_PATH_REGEX path"

subsection \<open>The path grammar of the specification\<close>

text \<open>
  The grammar of the specification's data model, production by production:
  \<^verbatim>\<open>
  path      := segment ('.' segment)* ('@' index)?
  segment   := identifier ('[' index ']')?
  identifier:= [A-Za-z_$][A-Za-z0-9_$]*
  index     := '-'? digit+
  \<close>
  The predicate for what may stand between the brackets of a segment is a parameter
  \<open>bidx\<close>, so that the grammar as written (\<open>bidx = g_index\<close>) and the grammar with an
  unsigned bracket index (\<open>bidx = g_digits\<close>) are instances of the same productions.
\<close>

definition g_identifier :: "string \<Rightarrow> bool" where
  "g_identifier s = (case s of [] \<Rightarrow> False | c # cs \<Rightarrow> ident_start c \<and> list_all ident_char cs)"

definition g_digits :: "string \<Rightarrow> bool" where
  "g_digits s = (s \<noteq> [] \<and> list_all digit s)"

definition g_index :: "string \<Rightarrow> bool" where
  "g_index s = (case s of [] \<Rightarrow> False | c # ds \<Rightarrow> if c = CHR ''-'' then g_digits ds else g_digits s)"

inductive segment :: "(string \<Rightarrow> bool) \<Rightarrow> string \<Rightarrow> bool" for bidx where
  seg_plain: "g_identifier i \<Longrightarrow> segment bidx i"
| seg_bracket: "g_identifier i \<Longrightarrow> bidx n \<Longrightarrow> segment bidx (i @ ''['' @ n @ '']'')"

inductive segments :: "(string \<Rightarrow> bool) \<Rightarrow> string \<Rightarrow> bool" for bidx where
  segs_one: "segment bidx s \<Longrightarrow> segments bidx s"
| segs_dot: "segment bidx s \<Longrightarrow> segments bidx p \<Longrightarrow> segments bidx (s @ ''.'' @ p)"

inductive grammar_path :: "(string \<Rightarrow> bool) \<Rightarrow> string \<Rightarrow> bool" for bidx where
  path_plain: "segments bidx p \<Longrightarrow> grammar_path bidx p"
| path_at: "segments bidx p \<Longrightarrow> g_index i \<Longrightarrow> grammar_path bidx (p @ ''@'' @ i)"

text \<open>The grammar as the specification writes it: a bracket index is an \<open>index\<close> (\<open>g_index\<close>).\<close>

definition spec_path :: "string \<Rightarrow> bool" where
  "spec_path = grammar_path g_index"

text \<open>The same productions with \<^verbatim>\<open>segment := identifier ('[' digit+ ']')?\<close>.\<close>

definition unsigned_bracket_path :: "string \<Rightarrow> bool" where
  "unsigned_bracket_path = grammar_path g_digits"

subsection \<open>The language of a regular expression\<close>

definition conc :: "string set \<Rightarrow> string set \<Rightarrow> string set" where
  "conc A B = {u @ v | u v. u \<in> A \<and> v \<in> B}"

inductive_set star :: "string set \<Rightarrow> string set" for A where
  star_nil: "[] \<in> star A"
| star_app: "u \<in> A \<Longrightarrow> v \<in> star A \<Longrightarrow> u @ v \<in> star A"

fun lang :: "regex \<Rightarrow> string set" where
  "lang Never = {}"
| "lang Empty = {[]}"
| "lang (Cls p) = {[c] | c. p c}"
| "lang (Cat r s) = conc (lang r) (lang s)"
| "lang (Or r s) = lang r \<union> lang s"
| "lang (Rep r) = star (lang r)"
| "lang (Rep1 r) = conc (lang r) (star (lang r))"
| "lang (Opt r) = insert [] (lang r)"

section \<open>JavaScript values\<close>

text \<open>
  The engines work on arbitrary caller data (\<^verbatim>\<open>T extends object\<close>, \<^verbatim>\<open>unknown\<close>), so the
  model is a tagged value tree. An array carries its elements and, separately, its named
  (non-index) own properties, because \<^verbatim>\<open>current[key] = value\<close> with a non-index key on
  an array stores such a property. An object is the list of its own properties in
  insertion order. What the tree does not hold: reference identity and sharing (a
  container reached through \<^verbatim>\<open>current[key]\<close> and mutated in place is written back into
  its parent, which is the same thing as long as no container is reachable twice);
  array holes (a hole reads as \<^verbatim>\<open>undefined\<close> and is an \<^verbatim>\<open>undefined\<close> element here);
  functions and everything inherited from a prototype (\<^verbatim>\<open>constructor\<close>, \<^verbatim>\<open>__proto__\<close>,
  \<^verbatim>\<open>toString\<close>, ...). A character is a UTF-16 code unit below 256.

  A number is \<^verbatim>\<open>NaN\<close>, an infinity or an exact rational: rounding to binary64, the
  sign of zero and overflow are not modelled.
\<close>

datatype jsnum = NaN | PosInf | NegInf | Fin rat

datatype jsval =
    JUndefined
  | JNull
  | JBool bool
  | JNum jsnum
  | JStr string
  | JArr "jsval list" "(string \<times> jsval) list"
  | JObj "(string \<times> jsval) list"

datatype InactiveKind = ALREADY_DELETED | MISSING

text \<open>
  What the code and the runtime throw. \<open>TypeError\<close> and \<open>RangeError\<close> come from the
  runtime (the classes of the repository are strict-mode code, where an assignment to a
  property of a primitive throws); \<open>Error msg\<close> is \<^verbatim>\<open>new Error(msg)\<close>;
  \<open>InactiveItemError message itemName errorType\<close> is the class of
  \<^verbatim>\<open>src/core/diff-identifier.ts\<close>.
\<close>

datatype error =
    TypeError
  | RangeError
  | Error string
  | InvalidPathError string
  | InactiveItemError string string InactiveKind

text \<open>\<^verbatim>\<open>x === undefined || x === null\<close>\<close>

fun nullish :: "jsval \<Rightarrow> bool" where
  "nullish JUndefined = True"
| "nullish JNull = True"
| "nullish _ = False"

subsection \<open>Strings and numbers of the runtime\<close>

text \<open>White space and line terminators below code unit 256: TAB, LF, VT, FF, CR, SP, NBSP.\<close>

definition whitespace :: "char \<Rightarrow> bool" where
  "whitespace c = (of_char c \<in> {9, 10, 11, 12, 13, 32, 160 :: nat})"

text \<open>\<^verbatim>\<open>String.prototype.trim\<close>\<close>

definition js_trim :: "string \<Rightarrow> string" where
  "js_trim s = rev (dropWhile whitespace (rev (dropWhile whitespace s)))"

definition digit_val :: "char \<Rightarrow> nat" where
  "digit_val c =
     (let n = of_char c in
      if 48 \<le> n \<and> n \<le> 57 then n - 48
      else if 97 \<le> n \<and> n \<le> 102 then n - 87
      else if 65 \<le> n \<and> n \<le> 70 then n - 55
      else 0)"

definition radix_digit :: "nat \<Rightarrow> char \<Rightarrow> bool" where
  "radix_digit b c =
     (let n = (of_char c :: nat) in
      ((48 \<le> n \<and> n \<le> 57) \<or> (97 \<le> n \<and> n \<le> 102) \<or> (65 \<le> n \<and> n \<le> 70))
      \<and> digit_val c < b)"

definition digits_val :: "nat \<Rightarrow> string \<Rightarrow> nat" where
  "digits_val b ds = foldl (\<lambda>n c. n * b + digit_val c) 0 ds"

definition neg_num :: "jsnum \<Rightarrow> jsnum" where
  "neg_num n = (case n of NaN \<Rightarrow> NaN | PosInf \<Rightarrow> NegInf | NegInf \<Rightarrow> PosInf | Fin q \<Rightarrow> Fin (- q))"

text \<open>\<^verbatim>\<open>ExponentPart? <end of string>\<close>, applied to the mantissa \<open>m\<close> read so far.\<close>

definition str_exponent :: "rat \<Rightarrow> string \<Rightarrow> jsnum" where
  "str_exponent m t =
     (case t of
        [] \<Rightarrow> Fin m
      | e # r \<Rightarrow>
          if e = CHR ''e'' \<or> e = CHR ''E'' then
            (let neg = (case r of [] \<Rightarrow> False | s # _ \<Rightarrow> s = CHR ''-'');
                 ds = (case r of [] \<Rightarrow> []
                       | s # r' \<Rightarrow> if s = CHR ''-'' \<or> s = CHR ''+'' then r' else r)
             in if ds \<noteq> [] \<and> list_all digit ds
                then (if neg then Fin (m / 10 ^ digits_val 10 ds)
                      else Fin (m * 10 ^ digits_val 10 ds))
                else NaN)
          else NaN)"

text \<open>\<^verbatim>\<open>StrUnsignedDecimalLiteral\<close>: \<^verbatim>\<open>Infinity\<close>, \<^verbatim>\<open>digits . digits? exp?\<close>,
  \<^verbatim>\<open>. digits exp?\<close> or \<^verbatim>\<open>digits exp?\<close>.\<close>

definition str_unsigned_decimal :: "string \<Rightarrow> jsnum" where
  "str_unsigned_decimal t =
     (if t = ''Infinity'' then PosInf
      else
        (let ip = takeWhile digit t; r = dropWhile digit t in
         case r of
           [] \<Rightarrow> if ip = [] then NaN else Fin (of_nat (digits_val 10 ip))
         | d # r' \<Rightarrow>
             if d = CHR ''.'' then
               (let fp = takeWhile digit r'; r'' = dropWhile digit r' in
                if ip = [] \<and> fp = [] then NaN
                else str_exponent
                       (of_nat (digits_val 10 ip) + of_nat (digits_val 10 fp) / 10 ^ length fp) r'')
             else if ip = [] then NaN
             else str_exponent (of_nat (digits_val 10 ip)) r))"

text \<open>\<^verbatim>\<open>NonDecimalIntegerLiteral\<close> (\<^verbatim>\<open>0x\<close>, \<^verbatim>\<open>0o\<close>, \<^verbatim>\<open>0b\<close>; no sign), else
  \<^verbatim>\<open>[+-]? StrUnsignedDecimalLiteral\<close>.\<close>

definition radix_of_prefix :: "string \<Rightarrow> nat option" where
  "radix_of_prefix t =
     (case t of
        z # x # _ \<Rightarrow>
          if z \<noteq> CHR ''0'' then None
          else if x = CHR ''x'' \<or> x = CHR ''X'' then Some 16
          else if x = CHR ''o'' \<or> x = CHR ''O'' then Some 8
          else if x = CHR ''b'' \<or> x = CHR ''B'' then Some 2
          else None
      | _ \<Rightarrow> None)"

definition str_numeric_literal :: "string \<Rightarrow> jsnum" where
  "str_numeric_literal t =
     (case radix_of_prefix t of
        Some b \<Rightarrow>
          (let ds = drop 2 t in
           if ds \<noteq> [] \<and> list_all (radix_digit b) ds then Fin (of_nat (digits_val b ds)) else NaN)
      | None \<Rightarrow>
          (case t of
             [] \<Rightarrow> NaN
           | s # r \<Rightarrow>
               if s = CHR ''-'' then neg_num (str_unsigned_decimal r)
               else if s = CHR ''+'' then str_unsigned_decimal r
               else str_unsigned_decimal t))"

text \<open>\<^verbatim>\<open>Number(s)\<close> for a string \<open>s\<close> (\<^verbatim>\<open>StringToNumber\<close>).\<close>

definition Number_js :: "string \<Rightarrow> jsnum" where
  "Number_js s = (let t = js_trim s in if t = [] then Fin 0 else str_numeric_literal t)"

text \<open>\<^verbatim>\<open>parseInt(s, 10)\<close>: leading white space, a sign, the longest run of digits; \<open>None\<close> is
  \<^verbatim>\<open>NaN\<close>.\<close>

definition parseInt10 :: "string \<Rightarrow> int option" where
  "parseInt10 s =
     (let t = dropWhile whitespace s;
          neg = (case t of [] \<Rightarrow> False | c # _ \<Rightarrow> c = CHR ''-'');
          u = (case t of [] \<Rightarrow> []
               | c # r \<Rightarrow> if c = CHR ''-'' \<or> c = CHR ''+'' then r else t);
          ds = takeWhile digit u
      in if ds = [] then None
         else Some (if neg then - int (digits_val 10 ds) else int (digits_val 10 ds)))"

text \<open>Decimal digits of a natural number.\<close>

definition digit_char :: "nat \<Rightarrow> char" where
  "digit_char n = ''0123456789'' ! n"

fun show_nat :: "nat \<Rightarrow> string" where
  "show_nat n =
     (if n < 10 then [digit_char n] else show_nat (n div 10) @ [digit_char (n mod 10)])"

declare show_nat.simps [simp del]

text \<open>The first \<open>k\<close> digits after the decimal point of \<open>q\<close>, for \<open>0 \<le> q < 1\<close>.\<close>

fun frac_digits :: "nat \<Rightarrow> rat \<Rightarrow> string" where
  "frac_digits 0 q = []"
| "frac_digits (Suc k) q =
     (if q = 0 then []
      else digit_char (nat \<lfloor>q * 10\<rfloor>) # frac_digits k (q * 10 - of_int \<lfloor>q * 10\<rfloor>))"

text \<open>
  \<^verbatim>\<open>Number::toString\<close>. Exact for \<^verbatim>\<open>NaN\<close>, the infinities and the integers below
  \<open>10\<^sup>2\<^sup>1\<close>; for another number it gives the positional decimal expansion (at most 20
  fractional digits), where JavaScript prints the shortest decimal that reads back as the
  same binary64 and switches to exponent notation for very large and very small numbers.
\<close>

definition number_to_string :: "jsnum \<Rightarrow> string" where
  "number_to_string n =
     (case n of
        NaN \<Rightarrow> ''NaN''
      | PosInf \<Rightarrow> ''Infinity''
      | NegInf \<Rightarrow> ''-Infinity''
      | Fin q \<Rightarrow>
          (let a = \<bar>q\<bar>; ip = \<lfloor>a\<rfloor>; fp = a - of_int ip;
               body = show_nat (nat ip) @ (if fp = 0 then [] else CHR ''.'' # frac_digits 20 fp)
           in if q < 0 then CHR ''-'' # body else body))"

fun join_comma :: "string list \<Rightarrow> string" where
  "join_comma [] = []"
| "join_comma [s] = s"
| "join_comma (s # t # ss) = s @ CHR '','' # join_comma (t # ss)"

text \<open>\<^verbatim>\<open>String(v)\<close>. An array is joined with commas (\<^verbatim>\<open>undefined\<close> and \<^verbatim>\<open>null\<close> elements as
  empty strings), a plain object is \<^verbatim>\<open>[object Object]\<close>.\<close>

fun String_js :: "jsval \<Rightarrow> string" where
  "String_js JUndefined = ''undefined''"
| "String_js JNull = ''null''"
| "String_js (JBool b) = (if b then ''true'' else ''false'')"
| "String_js (JNum n) = number_to_string n"
| "String_js (JStr s) = s"
| "String_js (JArr xs ps) = join_comma (map (\<lambda>x. if nullish x then [] else String_js x) xs)"
| "String_js (JObj ps) = ''[object Object]''"

text \<open>\<^verbatim>\<open>ToNumber(v)\<close>\<close>

fun to_number :: "jsval \<Rightarrow> jsnum" where
  "to_number JUndefined = NaN"
| "to_number JNull = Fin 0"
| "to_number (JBool b) = (if b then Fin 1 else Fin 0)"
| "to_number (JNum n) = n"
| "to_number (JStr s) = Number_js s"
| "to_number v = Number_js (String_js v)"

text \<open>\<^verbatim>\<open>ToBoolean(v)\<close>: what \<^verbatim>\<open>!v\<close> and \<^verbatim>\<open>if (v)\<close> test.\<close>

fun truthy :: "jsval \<Rightarrow> bool" where
  "truthy JUndefined = False"
| "truthy JNull = False"
| "truthy (JBool b) = b"
| "truthy (JNum n) = (n \<noteq> NaN \<and> n \<noteq> Fin 0)"
| "truthy (JStr s) = (s \<noteq> [])"
| "truthy _ = True"

subsection \<open>Property access\<close>

text \<open>An array index is a canonical numeric string below \<open>2\<^sup>3\<^sup>2 - 1\<close>: \<^verbatim>\<open>"01"\<close> is an
  ordinary property name.\<close>

definition array_index :: "string \<Rightarrow> bool" where
  "array_index k =
     (k \<noteq> [] \<and> list_all digit k \<and> (k = ''0'' \<or> hd k \<noteq> CHR ''0'')
      \<and> digits_val 10 k < 4294967295)"

definition index_val :: "string \<Rightarrow> nat" where
  "index_val k = digits_val 10 k"

definition lookup :: "(string \<times> jsval) list \<Rightarrow> string \<Rightarrow> jsval" where
  "lookup ps k = (case map_of ps k of None \<Rightarrow> JUndefined | Some v \<Rightarrow> v)"

text \<open>\<^verbatim>\<open>current[key]\<close> as a read. Reading a property of \<^verbatim>\<open>undefined\<close> or \<^verbatim>\<open>null\<close> throws;
  every caller below tests \<open>nullish\<close> first where the code can get there.\<close>

fun get_prop :: "jsval \<Rightarrow> string \<Rightarrow> jsval" where
  "get_prop (JObj ps) k = lookup ps k"
| "get_prop (JArr xs ps) k =
     (if array_index k then (if index_val k < length xs then xs ! index_val k else JUndefined)
      else if k = ''length'' then JNum (Fin (of_nat (length xs)))
      else lookup ps k)"
| "get_prop (JStr s) k =
     (if array_index k \<and> index_val k < length s then JStr [s ! index_val k]
      else if k = ''length'' then JNum (Fin (of_nat (length s)))
      else JUndefined)"
| "get_prop _ k = JUndefined"

text \<open>\<^verbatim>\<open>arr[i] = v\<close>: beyond the end the array grows, the gap reads as \<^verbatim>\<open>undefined\<close>.\<close>

definition set_elem :: "jsval list \<Rightarrow> nat \<Rightarrow> jsval \<Rightarrow> jsval list" where
  "set_elem xs i v =
     (if i < length xs then xs[i := v] else xs @ replicate (i - length xs) JUndefined @ [v])"

text \<open>\<^verbatim>\<open>arr.length = v\<close>: a \<^verbatim>\<open>RangeError\<close> unless \<^verbatim>\<open>ToNumber(v)\<close> is an integer in
  \<open>[0, 2\<^sup>3\<^sup>2)\<close>; otherwise the array is cut or padded.\<close>

definition set_length ::
  "jsval list \<Rightarrow> (string \<times> jsval) list \<Rightarrow> jsnum \<Rightarrow> jsval \<times> error option" where
  "set_length xs ps n =
     (case n of
        Fin q \<Rightarrow>
          if q = of_int \<lfloor>q\<rfloor> \<and> 0 \<le> q \<and> q < 4294967296
          then (JArr (take (nat \<lfloor>q\<rfloor>) xs @ replicate (nat \<lfloor>q\<rfloor> - length xs) JUndefined) ps, None)
          else (JArr xs ps, Some RangeError)
      | _ \<Rightarrow> (JArr xs ps, Some RangeError))"

text \<open>
  \<^verbatim>\<open>current[key] = v\<close> in strict mode. The result is the container after the statement
  and the error thrown, if any: an assignment to a property of a primitive (or of
  \<^verbatim>\<open>undefined\<close>, \<^verbatim>\<open>null\<close>) is a \<^verbatim>\<open>TypeError\<close> and changes nothing.
\<close>

fun put_prop :: "jsval \<Rightarrow> string \<Rightarrow> jsval \<Rightarrow> jsval \<times> error option" where
  "put_prop (JObj ps) k v = (JObj (AList.update k v ps), None)"
| "put_prop (JArr xs ps) k v =
     (if array_index k then (JArr (set_elem xs (index_val k) v) ps, None)
      else if k = ''length'' then set_length xs ps (to_number v)
      else (JArr xs (AList.update k v ps), None))"
| "put_prop c k v = (c, Some TypeError)"

text \<open>
  The write-back of the tree model: \<open>with_prop cur k c\<close> is \<open>cur\<close> once the container
  that \<open>cur[k]\<close> refers to has been mutated in place into \<open>c\<close>. It is only used where
  \<open>cur[k]\<close> was read and was not nullish. A primitive has no mutable parts.
\<close>

fun with_prop :: "jsval \<Rightarrow> string \<Rightarrow> jsval \<Rightarrow> jsval" where
  "with_prop (JObj ps) k c = JObj (AList.update k c ps)"
| "with_prop (JArr xs ps) k c =
     (if array_index k then JArr (xs[index_val k := c]) ps
      else if k = ''length'' then JArr xs ps
      else JArr xs (AList.update k c ps))"
| "with_prop cur k c = cur"

section \<open>\<^verbatim>\<open>ObjectManipulator\<close>\<close>

subsection \<open>\<^verbatim>\<open>parsePath\<close>\<close>

text \<open>
  The loop of \<^verbatim>\<open>parsePath\<close> over the characters still to read, with the keys found so
  far and the key being read. At \<^verbatim>\<open>[\<close> the loop index jumps to the next \<^verbatim>\<open>]\<close> if there is
  one, and the text between becomes a key, even when it is empty.
\<close>

function parsePath_loop :: "string \<Rightarrow> string list \<Rightarrow> string \<Rightarrow> string list" where
  "parsePath_loop [] result current = (if current \<noteq> [] then result @ [current] else result)"
| "parsePath_loop (c # rest) result current =
     (if c = CHR ''.'' then
        (if current \<noteq> [] then parsePath_loop rest (result @ [current]) []
         else parsePath_loop rest result current)
      else if c = CHR ''['' then
        (let result' = (if current \<noteq> [] then result @ [current] else result) in
         if CHR '']'' \<in> set rest
         then parsePath_loop (tl (dropWhile (\<lambda>x. x \<noteq> CHR '']'') rest))
                (result' @ [takeWhile (\<lambda>x. x \<noteq> CHR '']'') rest]) []
         else parsePath_loop rest result' [])
      else if c \<noteq> CHR '']'' then parsePath_loop rest result (current @ [c])
      else parsePath_loop rest result current)"
  by pat_completeness auto
termination
  apply (relation "measure (\<lambda>(s, r, c). length s)")
       apply (auto simp: less_Suc_eq_le)
  apply (rule le_trans [OF diff_le_self length_dropWhile_le])
  done

definition parsePath :: "string \<Rightarrow> string list" where
  "parsePath path = parsePath_loop path [] []"

subsection \<open>\<^verbatim>\<open>setPropertyValue\<close>\<close>

text \<open>
  The functions of \<^verbatim>\<open>ObjectManipulator\<close> mutate their argument and return nothing. Here
  each returns the object after the call, together with the error thrown if the call
  did not complete; whatever was mutated before the throw stays mutated.

  \<open>set_keys\<close> is the loop of \<^verbatim>\<open>setPropertyValue\<close> from \<open>current\<close> on, followed by the final
  assignment. \<^verbatim>\<open>/^\d+$/.test(nextKey)\<close> is \<open>regex_test (Rep1 (Cls digit))\<close>. With no key at
  all \<^verbatim>\<open>lastKey\<close> is \<^verbatim>\<open>keys[-1]\<close>, that is \<^verbatim>\<open>undefined\<close>, and the assignment is to the
  property named \<^verbatim>\<open>"undefined"\<close>.
\<close>

fun set_keys :: "jsval \<Rightarrow> string list \<Rightarrow> jsval \<Rightarrow> jsval \<times> error option" where
  "set_keys current [] v = put_prop current ''undefined'' v"
| "set_keys current [lastKey] v = put_prop current lastKey v"
| "set_keys current (key # nextKey # ks) v =
     (if nullish (get_prop current key) then
        (case put_prop current key
                (if regex_test (Rep1 (Cls digit)) nextKey then JArr [] [] else JObj []) of
           (current', Some e) \<Rightarrow> (current', Some e)
         | (current', None) \<Rightarrow>
             (case set_keys (get_prop current' key) (nextKey # ks) v of
                (c, r) \<Rightarrow> (with_prop current' key c, r)))
      else
        (case set_keys (get_prop current key) (nextKey # ks) v of
           (c, r) \<Rightarrow> (with_prop current key c, r)))"

definition setPropertyValue :: "jsval \<Rightarrow> string \<Rightarrow> jsval \<Rightarrow> jsval \<times> error option" where
  "setPropertyValue obj path v = set_keys obj (parsePath path) v"

subsection \<open>\<^verbatim>\<open>getPropertyValue\<close>\<close>

text \<open>The loop of \<^verbatim>\<open>getPropertyValue\<close>; \<open>None\<close> is the early \<^verbatim>\<open>return defaultValue\<close>.\<close>

fun get_keys :: "jsval \<Rightarrow> string list \<Rightarrow> jsval option" where
  "get_keys current [] = Some current"
| "get_keys current (key # ks) =
     (if nullish current then None else get_keys (get_prop current key) ks)"

text \<open>\<open>defaultValue\<close> is \<open>JUndefined\<close> when the argument is omitted.\<close>

definition getPropertyValue :: "jsval \<Rightarrow> string \<Rightarrow> jsval \<Rightarrow> jsval" where
  "getPropertyValue obj path defaultValue =
     (case get_keys obj (parsePath path) of
        None \<Rightarrow> defaultValue
      | Some current \<Rightarrow> if nullish current then defaultValue else current)"

subsection \<open>\<^verbatim>\<open>deleteProperty\<close>\<close>

text \<open>\<^verbatim>\<open>ToIntegerOrInfinity\<close> of a finite number: truncation towards zero.\<close>

definition trunc :: "rat \<Rightarrow> int" where
  "trunc q = (if q < 0 then \<lceil>q\<rceil> else \<lfloor>q\<rfloor>)"

text \<open>The start position \<^verbatim>\<open>splice\<close> computes from its first argument, for an array of
  length \<open>len\<close>: \<^verbatim>\<open>NaN\<close> is 0, a negative start counts from the end, and the result is
  clamped to \<open>[0, len]\<close>.\<close>

definition splice_start :: "jsnum \<Rightarrow> nat \<Rightarrow> nat" where
  "splice_start n len =
     (case n of
        NaN \<Rightarrow> 0
      | NegInf \<Rightarrow> 0
      | PosInf \<Rightarrow> len
      | Fin q \<Rightarrow>
          if trunc q < 0 then nat (max (int len + trunc q) 0) else min (nat (trunc q)) len)"

text \<open>\<^verbatim>\<open>xs.splice(start, 1)\<close>\<close>

definition splice_remove :: "jsval list \<Rightarrow> jsnum \<Rightarrow> jsval list" where
  "splice_remove xs start =
     (let a = splice_start start (length xs) in take a xs @ drop (Suc a) xs)"

text \<open>\<^verbatim>\<open>xs.splice(start, 0, v)\<close>\<close>

definition splice_insert :: "jsval list \<Rightarrow> jsnum \<Rightarrow> jsval \<Rightarrow> jsval list" where
  "splice_insert xs start v =
     (let a = splice_start start (length xs) in take a xs @ v # drop a xs)"

text \<open>
  The last statement of \<^verbatim>\<open>deleteProperty\<close>: \<^verbatim>\<open>current.splice(Number(lastKey), 1)\<close> on an
  array, \<^verbatim>\<open>delete current[lastKey]\<close> otherwise. In strict mode \<^verbatim>\<open>delete\<close> throws on the
  own, non-configurable properties of a string (its indices and \<^verbatim>\<open>length\<close>).
\<close>

fun delete_last :: "jsval \<Rightarrow> string \<Rightarrow> jsval \<times> error option" where
  "delete_last (JArr xs ps) lastKey = (JArr (splice_remove xs (Number_js lastKey)) ps, None)"
| "delete_last (JObj ps) lastKey = (JObj (AList.delete lastKey ps), None)"
| "delete_last (JStr s) lastKey =
     (if (array_index lastKey \<and> index_val lastKey < length s) \<or> lastKey = ''length''
      then (JStr s, Some TypeError) else (JStr s, None))"
| "delete_last JUndefined lastKey = (JUndefined, Some TypeError)"
| "delete_last JNull lastKey = (JNull, Some TypeError)"
| "delete_last current lastKey = (current, None)"

fun delete_keys :: "jsval \<Rightarrow> string list \<Rightarrow> jsval \<times> error option" where
  "delete_keys current [] = delete_last current ''undefined''"
| "delete_keys current [lastKey] = delete_last current lastKey"
| "delete_keys current (key # nextKey # ks) =
     (if nullish current then (current, Some TypeError)
      else if nullish (get_prop current key) then (current, None)
      else
        (case delete_keys (get_prop current key) (nextKey # ks) of
           (c, r) \<Rightarrow> (with_prop current key c, r)))"

definition deleteProperty :: "jsval \<Rightarrow> string \<Rightarrow> jsval \<times> error option" where
  "deleteProperty obj path = delete_keys obj (parsePath path)"

subsection \<open>\<^verbatim>\<open>getArrayAndIndex\<close> and the three array operations\<close>

text \<open>\<^verbatim>\<open>const [arrayPath, indexStr] = path.split('@')\<close>: the first two pieces;
  \<open>indexStr\<close> is \<open>None\<close> (\<^verbatim>\<open>undefined\<close>) when the path has no \<^verbatim>\<open>@\<close>.\<close>

definition split_at :: "string \<Rightarrow> string \<times> string option" where
  "split_at path =
     (takeWhile (\<lambda>c. c \<noteq> CHR ''@'') path,
      case dropWhile (\<lambda>c. c \<noteq> CHR ''@'') path of
        [] \<Rightarrow> None
      | _ # r \<Rightarrow> Some (takeWhile (\<lambda>c. c \<noteq> CHR ''@'') r))"

text \<open>\<^verbatim>\<open>parseInt(indexStr, 10)\<close>; \<^verbatim>\<open>parseInt(undefined, 10)\<close> reads the string
  \<^verbatim>\<open>"undefined"\<close>.\<close>

definition parse_index :: "string option \<Rightarrow> int option" where
  "parse_index indexStr =
     parseInt10 (case indexStr of None \<Rightarrow> ''undefined'' | Some s \<Rightarrow> s)"

text \<open>
  \<^verbatim>\<open>getArrayAndIndex\<close>, as the pair it returns:
  \<^verbatim>\<open>this.getPropertyValue(obj, arrayPath, []) ?? []\<close> and the index.
\<close>

definition getArrayAndIndex :: "jsval \<Rightarrow> string \<Rightarrow> jsval \<times> int option" where
  "getArrayAndIndex obj path =
     (case split_at path of
        (arrayPath, indexStr) \<Rightarrow>
          (getPropertyValue obj arrayPath (JArr [] []), parse_index indexStr))"

text \<open>
  The array operations mutate the value \<open>arr\<close> that \<^verbatim>\<open>getArrayAndIndex\<close> returns. When
  the path resolves, \<open>arr\<close> is the container inside \<open>obj\<close> and the mutation shows in
  \<open>obj\<close>; when the walk ends in \<^verbatim>\<open>undefined\<close> or \<^verbatim>\<open>null\<close>, \<open>arr\<close> is the fresh default
  \<^verbatim>\<open>[]\<close>, the operation on it cannot throw, and \<open>obj\<close> is not touched. \<open>modify_at\<close> walks
  the keys as \<open>get_keys\<close> does and applies \<open>f\<close> to what is found.
\<close>

fun modify_at ::
  "jsval \<Rightarrow> string list \<Rightarrow> (jsval \<Rightarrow> jsval \<times> error option) \<Rightarrow> jsval \<times> error option" where
  "modify_at current [] f = (if nullish current then (current, None) else f current)"
| "modify_at current (key # ks) f =
     (if nullish current \<or> nullish (get_prop current key) then (current, None)
      else (case modify_at (get_prop current key) ks f of
              (c, r) \<Rightarrow> (with_prop current key c, r)))"

text \<open>\<^verbatim>\<open>arr.push(value)\<close> and \<^verbatim>\<open>arr.splice(index, 0, value)\<close>: on anything but an array the
  method is \<^verbatim>\<open>undefined\<close> and the call is a \<^verbatim>\<open>TypeError\<close>.\<close>

fun array_push :: "jsval \<Rightarrow> jsval \<Rightarrow> jsval \<times> error option" where
  "array_push (JArr xs ps) v = (JArr (xs @ [v]) ps, None)"
| "array_push arr v = (arr, Some TypeError)"

definition num_of_index :: "int option \<Rightarrow> jsnum" where
  "num_of_index index = (case index of None \<Rightarrow> NaN | Some i \<Rightarrow> Fin (of_int i))"

fun array_splice_insert :: "jsval \<Rightarrow> int option \<Rightarrow> jsval \<Rightarrow> jsval \<times> error option" where
  "array_splice_insert (JArr xs ps) index v =
     (JArr (splice_insert xs (num_of_index index) v) ps, None)"
| "array_splice_insert arr index v = (arr, Some TypeError)"

fun array_splice_remove :: "jsval \<Rightarrow> int option \<Rightarrow> jsval \<times> error option" where
  "array_splice_remove (JArr xs ps) index =
     (JArr (splice_remove xs (num_of_index index)) ps, None)"
| "array_splice_remove arr index = (arr, Some TypeError)"

definition insertAtIndex :: "jsval \<Rightarrow> string \<Rightarrow> jsval \<Rightarrow> jsval \<times> error option" where
  "insertAtIndex obj path v =
     (case split_at path of
        (arrayPath, indexStr) \<Rightarrow>
          modify_at obj (parsePath arrayPath)
            (\<lambda>arr. if parse_index indexStr = Some (- 1) then array_push arr v
                   else array_splice_insert arr (parse_index indexStr) v))"

text \<open>\<^verbatim>\<open>a < b\<close> on numbers: false when either side is \<^verbatim>\<open>NaN\<close>.\<close>

fun num_less :: "jsnum \<Rightarrow> jsnum \<Rightarrow> bool" where
  "num_less NaN _ = False"
| "num_less _ NaN = False"
| "num_less PosInf _ = False"
| "num_less _ NegInf = False"
| "num_less NegInf _ = True"
| "num_less _ PosInf = True"
| "num_less (Fin a) (Fin b) = (a < b)"

text \<open>\<^verbatim>\<open>if (index >= 0 && index < arr.length) arr.splice(index, 1)\<close>\<close>

definition removeAtIndex :: "jsval \<Rightarrow> string \<Rightarrow> jsval \<times> error option" where
  "removeAtIndex obj path =
     (case split_at path of
        (arrayPath, indexStr) \<Rightarrow>
          modify_at obj (parsePath arrayPath)
            (\<lambda>arr. case parse_index indexStr of
                     None \<Rightarrow> (arr, None)
                   | Some i \<Rightarrow>
                       if 0 \<le> i \<and> num_less (Fin (of_int i)) (to_number (get_prop arr ''length''))
                       then array_splice_remove arr (Some i) else (arr, None)))"

text \<open>\<^verbatim>\<open>if (index >= 0) arr[index] = value\<close>; the property key is \<^verbatim>\<open>String(index)\<close>.\<close>

definition setValueAtIndex :: "jsval \<Rightarrow> string \<Rightarrow> jsval \<Rightarrow> jsval \<times> error option" where
  "setValueAtIndex obj path v =
     (case split_at path of
        (arrayPath, indexStr) \<Rightarrow>
          modify_at obj (parsePath arrayPath)
            (\<lambda>arr. case parse_index indexStr of
                     None \<Rightarrow> (arr, None)
                   | Some i \<Rightarrow>
                       if 0 \<le> i then put_prop arr (number_to_string (Fin (of_int i))) v
                       else (arr, None)))"

section \<open>\<^verbatim>\<open>JSON.stringify\<close> and \<^verbatim>\<open>JSON.parse\<close>\<close>

text \<open>
  The JSON codec is the runtime's, not the repository's. It is written out here for the
  data values of the model, so that \<^verbatim>\<open>parseValue\<close> can be run on concrete texts.
  \<^verbatim>\<open>JSON.stringify\<close> of \<^verbatim>\<open>undefined\<close> is \<^verbatim>\<open>undefined\<close> (\<open>None\<close>); inside an array it is
  \<^verbatim>\<open>null\<close>, inside an object the property is left out. Properties are written in the
  order of the list (JavaScript puts integer-like keys first).
\<close>

definition hex_digit :: "nat \<Rightarrow> char" where
  "hex_digit n = (if n < 10 then char_of (48 + n) else char_of (87 + n))"

text \<open>\<^verbatim>\<open>QuoteJSONString\<close>, one code unit.\<close>

definition quote_char :: "char \<Rightarrow> string" where
  "quote_char c =
     (let n = (of_char c :: nat) in
      if c = CHR 0x22 then [CHR 0x5C, CHR 0x22]
      else if c = CHR 0x5C then [CHR 0x5C, CHR 0x5C]
      else if n = 8 then [CHR 0x5C, CHR ''b'']
      else if n = 9 then [CHR 0x5C, CHR ''t'']
      else if n = 10 then [CHR 0x5C, CHR ''n'']
      else if n = 12 then [CHR 0x5C, CHR ''f'']
      else if n = 13 then [CHR 0x5C, CHR ''r'']
      else if n < 32 then [CHR 0x5C, CHR ''u'', CHR ''0'', CHR ''0'', hex_digit (n div 16), hex_digit (n mod 16)]
      else [c])"

definition quote_string :: "string \<Rightarrow> string" where
  "quote_string s = CHR 0x22 # concat (map quote_char s) @ [CHR 0x22]"

fun JSON_stringify :: "jsval \<Rightarrow> string option" where
  "JSON_stringify JUndefined = None"
| "JSON_stringify JNull = Some ''null''"
| "JSON_stringify (JBool b) = Some (if b then ''true'' else ''false'')"
| "JSON_stringify (JNum n) =
     Some (case n of Fin q \<Rightarrow> number_to_string n | _ \<Rightarrow> ''null'')"
| "JSON_stringify (JStr s) = Some (quote_string s)"
| "JSON_stringify (JArr xs ps) =
     Some (''['' @ join_comma (map (\<lambda>x. case JSON_stringify x of None \<Rightarrow> ''null'' | Some t \<Rightarrow> t) xs)
           @ '']'')"
| "JSON_stringify (JObj ps) =
     Some (''{'' @ join_comma
             (concat (map (\<lambda>(k, v). case JSON_stringify v of None \<Rightarrow> []
                                     | Some t \<Rightarrow> [quote_string k @ '':'' @ t]) ps))
           @ ''}'')"

text \<open>JSON white space: TAB, LF, CR, SP.\<close>

definition json_ws :: "char \<Rightarrow> bool" where
  "json_ws c = (of_char c \<in> {9, 10, 13, 32 :: nat})"

definition skip_ws :: "string \<Rightarrow> string" where
  "skip_ws s = dropWhile json_ws s"

definition unescape :: "char \<Rightarrow> char option" where
  "unescape e =
     (if e = CHR 0x22 \<or> e = CHR 0x5C \<or> e = CHR ''/'' then Some e
      else if e = CHR ''b'' then Some (char_of (8 :: nat))
      else if e = CHR ''t'' then Some (char_of (9 :: nat))
      else if e = CHR ''n'' then Some (char_of (10 :: nat))
      else if e = CHR ''f'' then Some (char_of (12 :: nat))
      else if e = CHR ''r'' then Some (char_of (13 :: nat))
      else None)"

text \<open>
  The characters of a JSON string after the opening quote, up to the closing one. An
  escape \<^verbatim>\<open>\uXXXX\<close> is a code unit; above \<^verbatim>\<open>00FF\<close> it is outside the strings of the model
  and is kept modulo 256.
\<close>

fun json_string_body :: "string \<Rightarrow> string \<Rightarrow> (string \<times> string) option" where
  "json_string_body [] acc = None"
| "json_string_body (c # r) acc =
     (if c = CHR 0x22 then Some (rev acc, r)
      else if c = CHR 0x5C then
        (case r of
           [] \<Rightarrow> None
         | e # r' \<Rightarrow>
             if e = CHR ''u'' then
               (if 4 \<le> length r' \<and> list_all (radix_digit 16) (take 4 r')
                then json_string_body (drop 4 r') (char_of (digits_val 16 (take 4 r')) # acc)
                else None)
             else (case unescape e of
                     None \<Rightarrow> None
                   | Some ch \<Rightarrow> json_string_body r' (ch # acc)))
      else if (of_char c :: nat) < 32 then None
      else json_string_body r (c # acc))"

text \<open>A JSON number: \<^verbatim>\<open>-? (0 | [1-9][0-9]*) (. [0-9]+)? ([eE] [+-]? [0-9]+)?\<close>.\<close>

definition json_number :: "string \<Rightarrow> (jsnum \<times> string) option" where
  "json_number s =
     (let neg = (case s of [] \<Rightarrow> False | c # _ \<Rightarrow> c = CHR ''-'');
          s1 = (if neg then tl s else s);
          ip = takeWhile digit s1; s2 = dropWhile digit s1;
          dot = (case s2 of [] \<Rightarrow> False | c # _ \<Rightarrow> c = CHR ''.'');
          fp = (if dot then takeWhile digit (tl s2) else []);
          s3 = (if dot then dropWhile digit (tl s2) else s2);
          ex = (case s3 of [] \<Rightarrow> False | c # _ \<Rightarrow> c = CHR ''e'' \<or> c = CHR ''E'');
          eneg = (ex \<and> (case tl s3 of [] \<Rightarrow> False | c # _ \<Rightarrow> c = CHR ''-''));
          s4 = (if ex then (case tl s3 of [] \<Rightarrow> []
                           | c # r \<Rightarrow> if c = CHR ''-'' \<or> c = CHR ''+'' then r else c # r)
                else s3);
          ep = (if ex then takeWhile digit s4 else []);
          s5 = (if ex then dropWhile digit s4 else s3);
          m = of_nat (digits_val 10 ip) + of_nat (digits_val 10 fp) / 10 ^ length fp;
          a = (if eneg then m / 10 ^ digits_val 10 ep else m * 10 ^ digits_val 10 ep)
      in if ip = [] \<or> (1 < length ip \<and> hd ip = CHR ''0'') \<or> (dot \<and> fp = []) \<or> (ex \<and> ep = [])
         then None
         else Some (Fin (if neg then - a else a), s5))"

definition strip_prefix :: "string \<Rightarrow> string \<Rightarrow> string option" where
  "strip_prefix p s = (if take (length p) s = p then Some (drop (length p) s) else None)"

lemma length_skip_ws: "length (skip_ws s) \<le> length s"
  by (simp add: skip_ws_def length_dropWhile_le)

lemma skip_ws_Cons_less: "skip_ws r = d # r' \<Longrightarrow> length r' < length r"
  using length_skip_ws [of r] by simp

text \<open>
  A JSON value at the head of the text (white space already skipped), and what follows
  it. Every value takes at least one character; the tests \<open>length r < length s\<close> say so
  where the recursion depends on it.
\<close>

function json_value :: "string \<Rightarrow> (jsval \<times> string) option"
  and json_elements :: "string \<Rightarrow> jsval list \<Rightarrow> (jsval list \<times> string) option"
  and json_members ::
    "string \<Rightarrow> (string \<times> jsval) list \<Rightarrow> ((string \<times> jsval) list \<times> string) option"
where
  "json_value s =
     (case s of
        [] \<Rightarrow> None
      | c # r \<Rightarrow>
          if c = CHR ''['' then
            (case skip_ws r of
               [] \<Rightarrow> None
             | d # r' \<Rightarrow>
                 if d = CHR '']'' then Some (JArr [] [], r')
                 else (case json_elements (skip_ws r) [] of
                         None \<Rightarrow> None
                       | Some (xs, t) \<Rightarrow> Some (JArr xs [], t)))
          else if c = CHR ''{'' then
            (case skip_ws r of
               [] \<Rightarrow> None
             | d # r' \<Rightarrow>
                 if d = CHR ''}'' then Some (JObj [], r')
                 else (case json_members (skip_ws r) [] of
                         None \<Rightarrow> None
                       | Some (ps, t) \<Rightarrow> Some (JObj ps, t)))
          else if c = CHR 0x22 then
            (case json_string_body r [] of
               None \<Rightarrow> None
             | Some (str, t) \<Rightarrow> Some (JStr str, t))
          else if c = CHR ''n'' then map_option (Pair JNull) (strip_prefix ''null'' s)
          else if c = CHR ''t'' then map_option (Pair (JBool True)) (strip_prefix ''true'' s)
          else if c = CHR ''f'' then map_option (Pair (JBool False)) (strip_prefix ''false'' s)
          else (case json_number s of
                  None \<Rightarrow> None
                | Some (n, t) \<Rightarrow> Some (JNum n, t)))"
| "json_elements s acc =
     (case json_value s of
        None \<Rightarrow> None
      | Some (v, r) \<Rightarrow>
          if length r < length s then
            (case skip_ws r of
               [] \<Rightarrow> None
             | d # r' \<Rightarrow>
                 if d = CHR '','' then json_elements (skip_ws r') (acc @ [v])
                 else if d = CHR '']'' then Some (acc @ [v], r')
                 else None)
          else None)"
| "json_members s acc =
     (case s of
        [] \<Rightarrow> None
      | q # r0 \<Rightarrow>
          if q \<noteq> CHR 0x22 then None
          else
            (case json_string_body r0 [] of
               None \<Rightarrow> None
             | Some (k, r1) \<Rightarrow>
                 (case skip_ws r1 of
                    [] \<Rightarrow> None
                  | colon # r2 \<Rightarrow>
                      if colon \<noteq> CHR '':'' \<or> \<not> length r2 < length s then None
                      else
                        (case json_value (skip_ws r2) of
                           None \<Rightarrow> None
                         | Some (v, r3) \<Rightarrow>
                             if length r3 < length s then
                               (case skip_ws r3 of
                                  [] \<Rightarrow> None
                                | d # r4 \<Rightarrow>
                                    if d = CHR '','' then
                                      json_members (skip_ws r4) (AList.update k v acc)
                                    else if d = CHR ''}'' then Some (AList.update k v acc, r4)
                                    else None)
                             else None))))"
  by pat_completeness auto
termination
  apply (relation "measure (\<lambda>x. case x of
            Inl s \<Rightarrow> 2 * length s
          | Inr (Inl (s, acc)) \<Rightarrow> 2 * length s + 1
          | Inr (Inr (s, acc)) \<Rightarrow> 2 * length s + 1)")
        apply simp_all
  subgoal for s x21 x22 x21a x22a
    using skip_ws_Cons_less [of x22 x21a x22a] by simp
  subgoal for s x21 x22 x21a x22a
    using skip_ws_Cons_less [of x22 x21a x22a] by simp
  subgoal for s x2 x y x21 x22
    using skip_ws_Cons_less [of y "CHR '',''" x22] length_skip_ws [of x22] by simp
  subgoal for s x21 x22 x2 x y x22a
    using length_skip_ws [of x22a] by simp
  subgoal for s x21 x22 x2 x y x22a x2a xa ya x21b x22b
    using skip_ws_Cons_less [of ya "CHR '',''" x22b] length_skip_ws [of x22b] by simp
  done

declare json_value.simps [simp del] json_elements.simps [simp del] json_members.simps [simp del]

text \<open>\<^verbatim>\<open>JSON.parse(text)\<close>; \<open>None\<close> is the \<^verbatim>\<open>SyntaxError\<close>.\<close>

definition JSON_parse :: "string \<Rightarrow> jsval option" where
  "JSON_parse text =
     (case json_value (skip_ws text) of
        None \<Rightarrow> None
      | Some (v, r) \<Rightarrow> if skip_ws r = [] then Some v else None)"

section \<open>\<^verbatim>\<open>DocumentChangeParser\<close>\<close>

datatype ChangeType = CREATE | UPDATE | DELETE

datatype PropertyType = STRING | NUMBER | OBJECT

text \<open>The enum values are the strings \<^verbatim>\<open>'CREATE'\<close>, \<^verbatim>\<open>'UPDATE'\<close>, \<^verbatim>\<open>'DELETE'\<close>.\<close>

fun ChangeType_string :: "ChangeType \<Rightarrow> string" where
  "ChangeType_string CREATE = ''CREATE''"
| "ChangeType_string UPDATE = ''UPDATE''"
| "ChangeType_string DELETE = ''DELETE''"

record ChangeDescriptor =
  ctype :: ChangeType
  propertyPath :: string
  newValue :: "string option"
  newValueType :: "PropertyType option"

record DocumentChange =
  change_id :: "string option"
  changes :: "ChangeDescriptor list"
  createdBy :: "string option"
  createdAt :: "int option"

record ApplyChangesOptions =
  clone :: "bool option"
  validatePaths :: "bool option"

text \<open>\<^verbatim>\<open>parseValue\<close>. A \<^verbatim>\<open>SyntaxError\<close> of either \<^verbatim>\<open>JSON.parse\<close> is caught and replaced.\<close>

fun parseValue :: "string \<Rightarrow> PropertyType \<Rightarrow> error + jsval" where
  "parseValue v STRING = Inr (JStr v)"
| "parseValue v NUMBER = Inr (JNum (Number_js v))"
| "parseValue v OBJECT =
     (case JSON_parse v of
        None \<Rightarrow> Inl (Error (''Failed to parse object value: '' @ v))
      | Some parsed \<Rightarrow>
          (case parsed of
             JStr s \<Rightarrow>
               (case JSON_parse s of
                  None \<Rightarrow> Inl (Error (''Failed to parse object value: '' @ v))
                | Some inner \<Rightarrow> Inr inner)
           | _ \<Rightarrow> Inr parsed))"

text \<open>\<^verbatim>\<open>path.includes('@')\<close>\<close>

definition isArrayChange :: "string \<Rightarrow> bool" where
  "isArrayChange path = (CHR ''@'' \<in> set path)"

fun applyArrayChange :: "jsval \<Rightarrow> string \<Rightarrow> ChangeType \<Rightarrow> jsval \<Rightarrow> jsval \<times> error option" where
  "applyArrayChange obj path CREATE v = insertAtIndex obj path v"
| "applyArrayChange obj path UPDATE v = setValueAtIndex obj path v"
| "applyArrayChange obj path DELETE v = removeAtIndex obj path"

fun applyPropertyChange :: "jsval \<Rightarrow> string \<Rightarrow> ChangeType \<Rightarrow> jsval \<Rightarrow> jsval \<times> error option" where
  "applyPropertyChange obj path CREATE v = setPropertyValue obj path v"
| "applyPropertyChange obj path UPDATE v = setPropertyValue obj path v"
| "applyPropertyChange obj path DELETE v = deleteProperty obj path"

text \<open>
  \<^verbatim>\<open>applyFieldChange\<close>: the object after the call and the error thrown, if any.
  \<^verbatim>\<open>options.validatePaths\<close> is tested for truthiness, so an absent field validates nothing.
\<close>

definition applyFieldChange ::
  "jsval \<Rightarrow> ChangeDescriptor \<Rightarrow> ApplyChangesOptions \<Rightarrow> jsval \<times> error option" where
  "applyFieldChange obj change options =
     (if validatePaths options = Some True \<and> \<not> isValidPropertyPath (propertyPath change)
      then (obj, Some (InvalidPathError (propertyPath change)))
      else
        (case (if ctype change = CREATE \<or> ctype change = UPDATE then
                 (case (newValue change, newValueType change) of
                    (Some nv, Some nt) \<Rightarrow> parseValue nv nt
                  | _ \<Rightarrow> Inl (Error (''newValue and newValueType are required for ''
                                      @ ChangeType_string (ctype change) @ '' operations'')))
               else Inr JNull) of
           Inl e \<Rightarrow> (obj, Some e)
         | Inr parsedValue \<Rightarrow>
             if isArrayChange (propertyPath change)
             then applyArrayChange obj (propertyPath change) (ctype change) parsedValue
             else applyPropertyChange obj (propertyPath change) (ctype change) parsedValue))"

text \<open>The \<^verbatim>\<open>for\<close> loop of \<^verbatim>\<open>applyChange\<close>: it stops at the first descriptor that throws.\<close>

fun apply_descriptors ::
  "jsval \<Rightarrow> ChangeDescriptor list \<Rightarrow> ApplyChangesOptions \<Rightarrow> jsval \<times> error option" where
  "apply_descriptors obj [] options = (obj, None)"
| "apply_descriptors obj (change # cs) options =
     (case applyFieldChange obj change options of
        (obj', Some e) \<Rightarrow> (obj', Some e)
      | (obj', None) \<Rightarrow> apply_descriptors obj' cs options)"

text \<open>\<^verbatim>\<open>options: ApplyChangesOptions = { validatePaths: true }\<close>: the default stands in for
  an omitted argument only.\<close>

definition default_options :: ApplyChangesOptions where
  "default_options = \<lparr>clone = None, validatePaths = Some True\<rparr>"

definition applyChange ::
  "jsval \<Rightarrow> DocumentChange \<Rightarrow> ApplyChangesOptions option \<Rightarrow> jsval \<times> error option" where
  "applyChange obj documentChange options =
     apply_descriptors obj (changes documentChange)
       (case options of None \<Rightarrow> default_options | Some opts \<Rightarrow> opts)"

fun applyChanges ::
  "jsval \<Rightarrow> DocumentChange list \<Rightarrow> ApplyChangesOptions option \<Rightarrow> jsval \<times> error option" where
  "applyChanges obj [] options = (obj, None)"
| "applyChanges obj (documentChange # dcs) options =
     (case applyChange obj documentChange options of
        (obj', Some e) \<Rightarrow> (obj', Some e)
      | (obj', None) \<Rightarrow> applyChanges obj' dcs options)"

section \<open>\<^verbatim>\<open>DiffIdentifier\<close>\<close>

text \<open>
  A record of a dataset is a value \<open>item\<close> (\<^verbatim>\<open>T extends Record<string, unknown>\<close>) and
  \<^verbatim>\<open>item[field]\<close> is \<open>get_prop item field\<close>. \<open>newItems\<close> is given as the list over which
  \<^verbatim>\<open>newItems.values()\<close> or \<^verbatim>\<open>Object.values(newItems)\<close> iterates.
\<close>

record DiffConfig =
  idField :: string
  nameField :: string
  isDeletedField :: "string option"
  ignoreFields :: "string list option"

record DiffResult =
  inserts :: "jsval list"
  updates :: "(jsval \<times> jsval) list"
  processedIds :: "string set"

text \<open>The first loop of \<^verbatim>\<open>identifyChanges\<close>: \<^verbatim>\<open>existingMap.set(String(item[nameField]), item)\<close>,
  a later record replacing an earlier one of the same name.\<close>

fun build_existingMap :: "string \<Rightarrow> jsval list \<Rightarrow> (string \<rightharpoonup> jsval) \<Rightarrow> (string \<rightharpoonup> jsval)" where
  "build_existingMap nf [] m = m"
| "build_existingMap nf (item # items) m =
     build_existingMap nf items (m(String_js (get_prop item nf) \<mapsto> item))"

text \<open>\<^verbatim>\<open>isDeletedField && x[isDeletedField]\<close>: the field name itself is tested for
  truthiness first, so an absent or empty name switches the test off.\<close>

definition deleted_flag :: "DiffConfig \<Rightarrow> jsval \<Rightarrow> bool" where
  "deleted_flag config item =
     (case isDeletedField config of
        None \<Rightarrow> False
      | Some f \<Rightarrow> f \<noteq> [] \<and> truthy (get_prop item f))"

text \<open>\<^verbatim>\<open>isDeletedField && !item[isDeletedField] && oldItem[isDeletedField]\<close>\<close>

definition resurrects :: "DiffConfig \<Rightarrow> jsval \<Rightarrow> jsval \<Rightarrow> bool" where
  "resurrects config item oldItem =
     (case isDeletedField config of
        None \<Rightarrow> False
      | Some f \<Rightarrow> f \<noteq> [] \<and> \<not> truthy (get_prop item f) \<and> truthy (get_prop oldItem f))"

text \<open>\<^verbatim>\<open>typeof v === 'object' && v !== null\<close>\<close>

fun is_object :: "jsval \<Rightarrow> bool" where
  "is_object (JArr xs ps) = True"
| "is_object (JObj ps) = True"
| "is_object _ = False"

text \<open>\<^verbatim>\<open>a === b\<close> on the values of the model. Two containers are taken to be different
  objects: the tree does not know whether they are one object.\<close>

definition strict_eq :: "jsval \<Rightarrow> jsval \<Rightarrow> bool" where
  "strict_eq a b = (\<not> is_object a \<and> a \<noteq> JNum NaN \<and> a = b)"

text \<open>\<^verbatim>\<open>Object.keys(v)\<close>: the indices of an array, then its named properties.\<close>

fun own_keys :: "jsval \<Rightarrow> string list" where
  "own_keys (JObj ps) = map fst ps"
| "own_keys (JArr xs ps) = map show_nat [0..<length xs] @ map fst ps"
| "own_keys _ = []"

text \<open>
  \<^verbatim>\<open>deepEqual\<close>. The loop over \<open>keys1\<close> runs over the elements and the properties of
  \<open>obj1\<close> themselves: \<open>deepEqual_elems i xs\<close> is the loop over the indices from \<open>i\<close> on and
  \<open>deepEqual_props\<close> the loop over the named properties (for a list of properties without
  repeated names, \<open>v\<close> is \<open>obj1[key]\<close>).
\<close>

fun deepEqual :: "jsval \<Rightarrow> jsval \<Rightarrow> string list \<Rightarrow> bool"
  and deepEqual_elems :: "nat \<Rightarrow> jsval list \<Rightarrow> jsval \<Rightarrow> string list \<Rightarrow> bool"
  and deepEqual_props :: "(string \<times> jsval) list \<Rightarrow> jsval \<Rightarrow> string list \<Rightarrow> bool"
where
  "deepEqual (JObj ps) obj2 ign =
     (is_object obj2 \<and>
      length (filter (\<lambda>k. k \<notin> set ign) (own_keys (JObj ps)))
        = length (filter (\<lambda>k. k \<notin> set ign) (own_keys obj2)) \<and>
      deepEqual_props ps obj2 ign)"
| "deepEqual (JArr xs ps) obj2 ign =
     (is_object obj2 \<and>
      length (filter (\<lambda>k. k \<notin> set ign) (own_keys (JArr xs ps)))
        = length (filter (\<lambda>k. k \<notin> set ign) (own_keys obj2)) \<and>
      deepEqual_elems 0 xs obj2 ign \<and> deepEqual_props ps obj2 ign)"
| "deepEqual JUndefined obj2 ign = strict_eq JUndefined obj2"
| "deepEqual JNull obj2 ign = strict_eq JNull obj2"
| "deepEqual (JBool b) obj2 ign = strict_eq (JBool b) obj2"
| "deepEqual (JNum n) obj2 ign = strict_eq (JNum n) obj2"
| "deepEqual (JStr s) obj2 ign = strict_eq (JStr s) obj2"
| "deepEqual_elems i [] obj2 ign = True"
| "deepEqual_elems i (x # xs) obj2 ign =
     ((show_nat i \<in> set ign \<or>
        (show_nat i \<in> set (own_keys obj2) \<and> deepEqual x (get_prop obj2 (show_nat i)) ign))
      \<and> deepEqual_elems (Suc i) xs obj2 ign)"
| "deepEqual_props [] obj2 ign = True"
| "deepEqual_props ((key, v) # ps) obj2 ign =
     ((key \<in> set ign \<or>
        (key \<in> set (own_keys obj2) \<and> deepEqual v (get_prop obj2 key) ign))
      \<and> deepEqual_props ps obj2 ign)"

text \<open>The body of the second loop of \<^verbatim>\<open>identifyChanges\<close>, from the record \<open>item\<close> on.
  A record without a truthy name is skipped with a warning.\<close>

fun identify_loop ::
  "DiffConfig \<Rightarrow> (string \<rightharpoonup> jsval) \<Rightarrow> jsval list \<Rightarrow> DiffResult \<Rightarrow> error + DiffResult" where
  "identify_loop config existingMap [] acc = Inr acc"
| "identify_loop config existingMap (item # rest) acc =
     (if \<not> truthy (get_prop item (nameField config)) then
        identify_loop config existingMap rest acc
      else
        (let nameStr = String_js (get_prop item (nameField config));
             pid = String_js (get_prop item (idField config)) in
         case existingMap nameStr of
           Some oldItem \<Rightarrow>
             if resurrects config item oldItem then
               Inl (InactiveItemError (''Cannot resurrect deleted item: '' @ nameStr)
                      nameStr ALREADY_DELETED)
             else if \<not> deepEqual oldItem item
                         (case ignoreFields config of None \<Rightarrow> [] | Some fs \<Rightarrow> fs) then
               identify_loop config existingMap rest
                 (acc\<lparr>updates := updates acc @ [(oldItem, item)],
                      processedIds := insert pid (processedIds acc)\<rparr>)
             else
               identify_loop config existingMap rest
                 (acc\<lparr>processedIds := insert pid (processedIds acc)\<rparr>)
         | None \<Rightarrow>
             identify_loop config existingMap rest
               (acc\<lparr>inserts := inserts acc @ [item],
                    processedIds := insert pid (processedIds acc)\<rparr>)))"

definition identifyChanges :: "jsval list \<Rightarrow> jsval list \<Rightarrow> DiffConfig \<Rightarrow> error + DiffResult" where
  "identifyChanges newItems existingItems config =
     identify_loop config
       (build_existingMap (nameField config) existingItems Map.empty) newItems
       \<lparr>inserts = [], updates = [], processedIds = {}\<rparr>"

record InactiveOptions =
  throwOnMissing :: "bool option"

text \<open>The loop of \<^verbatim>\<open>identifyInactive\<close>; a reported record is the object \<^verbatim>\<open>{ name }\<close>.\<close>

fun inactive_loop ::
  "DiffConfig \<Rightarrow> string set \<Rightarrow> InactiveOptions \<Rightarrow> jsval list \<Rightarrow> jsval list \<Rightarrow> error + jsval list" where
  "inactive_loop config pids options [] inactive = Inr inactive"
| "inactive_loop config pids options (item # rest) inactive =
     (if js_trim (String_js (get_prop item (idField config))) \<notin> pids then
        (let name = String_js (get_prop item (nameField config)) in
         if deleted_flag config item then
           inactive_loop config pids options rest (inactive @ [JObj [(''name'', JStr name)]])
         else if throwOnMissing options = Some True then
           Inl (InactiveItemError (''Item missing from import: '' @ name) name MISSING)
         else
           inactive_loop config pids options rest (inactive @ [JObj [(''name'', JStr name)]]))
      else inactive_loop config pids options rest inactive)"

text \<open>\<^verbatim>\<open>options: { throwOnMissing?: boolean } = { throwOnMissing: true }\<close>\<close>

definition identifyInactive ::
  "jsval list \<Rightarrow> string set \<Rightarrow> DiffConfig \<Rightarrow> InactiveOptions option \<Rightarrow> error + jsval list" where
  "identifyInactive existingItems pids config options =
     inactive_loop config pids
       (case options of None \<Rightarrow> \<lparr>throwOnMissing = Some True\<rparr> | Some opts \<Rightarrow> opts)
       existingItems []"

section \<open>The same engine on a heap of objects\<close>






































section \<open>Vocabulary of the statements\<close>

text \<open>
  The definitions of this section are not code of the repository: they are the words in
  which the properties below are stated.

  \<open>walk v keys\<close> is the value reached from \<open>v\<close> along \<open>keys\<close>, \<^verbatim>\<open>undefined\<close> once a step
  starts from \<^verbatim>\<open>undefined\<close> or \<^verbatim>\<open>null\<close> (the optional chain \<^verbatim>\<open>v?.[k1]?.[k2]...\<close>).
\<close>

fun walk :: "jsval \<Rightarrow> string list \<Rightarrow> jsval" where
  "walk v [] = v"
| "walk v (k # ks) = (if nullish v then JUndefined else walk (get_prop v k) ks)"

text \<open>The stringified, trimmed id of a record, its stringified name, the object
  \<^verbatim>\<open>{ name }\<close>, and the two errors of the reconciliation.\<close>

definition record_id :: "DiffConfig \<Rightarrow> jsval \<Rightarrow> string" where
  "record_id config item = js_trim (String_js (get_prop item (idField config)))"

definition record_name :: "DiffConfig \<Rightarrow> jsval \<Rightarrow> string" where
  "record_name config item = String_js (get_prop item (nameField config))"

definition named :: "string \<Rightarrow> jsval" where
  "named name = JObj [(''name'', JStr name)]"

definition missing_error :: "string \<Rightarrow> error" where
  "missing_error name = InactiveItemError (''Item missing from import: '' @ name) name MISSING"

definition resurrection_error :: "string \<Rightarrow> error" where
  "resurrection_error name =
     InactiveItemError (''Cannot resurrect deleted item: '' @ name) name ALREADY_DELETED"

text \<open>\<open>throws options\<close>: \<^verbatim>\<open>throwOnMissing\<close> is true, given or by default.\<close>

definition throws :: "InactiveOptions option \<Rightarrow> bool" where
  "throws options =
     (case options of None \<Rightarrow> True | Some opts \<Rightarrow> throwOnMissing opts = Some True)"

text \<open>
  The condition of the resurrection claim, as written: \<^verbatim>\<open>isDeletedField\<close> is configured
  and some incoming record is marked not deleted while an existing record sharing its
  name is marked deleted.
\<close>

definition claimed_resurrection :: "DiffConfig \<Rightarrow> jsval list \<Rightarrow> jsval list \<Rightarrow> bool" where
  "claimed_resurrection config newItems existingItems =
     (case isDeletedField config of
        None \<Rightarrow> False
      | Some f \<Rightarrow>
          (\<exists>item \<in> set newItems. \<exists>oldItem \<in> set existingItems.
             record_name config item = record_name config oldItem
             \<and> \<not> truthy (get_prop item f) \<and> truthy (get_prop oldItem f)))"

text \<open>The existing record under a name: the last one of that name.\<close>

definition existing_named :: "DiffConfig \<Rightarrow> jsval list \<Rightarrow> string \<Rightarrow> jsval option" where
  "existing_named config existingItems name =
     find (\<lambda>oldItem. record_name config oldItem = name) (rev existingItems)"

text \<open>An incoming record that the code refuses: it has a truthy name, and the existing
  record under that name is deleted while the incoming one is not.\<close>

definition resurrected :: "DiffConfig \<Rightarrow> jsval list \<Rightarrow> jsval \<Rightarrow> bool" where
  "resurrected config existingItems item =
     (truthy (get_prop item (nameField config)) \<and>
      (case existing_named config existingItems (record_name config item) of
         None \<Rightarrow> False
       | Some oldItem \<Rightarrow> resurrects config item oldItem))"

text \<open>The same test against the map that the code has built.\<close>

definition refused :: "DiffConfig \<Rightarrow> (string \<rightharpoonup> jsval) \<Rightarrow> jsval \<Rightarrow> bool" where
  "refused config m item =
     (truthy (get_prop item (nameField config)) \<and>
      (case m (record_name config item) of
         None \<Rightarrow> False
       | Some oldItem \<Rightarrow> resurrects config item oldItem))"

text \<open>An array, a plain object.\<close>

fun is_array :: "jsval \<Rightarrow> bool" where
  "is_array (JArr xs ps) = True"
| "is_array _ = False"

fun is_plain_object :: "jsval \<Rightarrow> bool" where
  "is_plain_object (JObj ps) = True"
| "is_plain_object _ = False"

text \<open>
  Some intermediate segment of the path is absent or null: the value reached after a
  segment that is not the last one is nullish. And the same with the last segment
  included.
\<close>

definition intermediate_absent :: "jsval \<Rightarrow> string list \<Rightarrow> bool" where
  "intermediate_absent obj keys =
     (\<exists>n. 0 < n \<and> n < length keys \<and> nullish (walk obj (take n keys)))"

definition segment_absent :: "jsval \<Rightarrow> string list \<Rightarrow> bool" where
  "segment_absent obj keys =
     (\<exists>n. 0 < n \<and> n \<le> length keys \<and> nullish (walk obj (take n keys)))"

text \<open>The container that \<^verbatim>\<open>setPropertyValue\<close> creates in front of the key \<open>nextKey\<close>.\<close>

definition container_for :: "string \<Rightarrow> jsval" where
  "container_for nextKey = (if regex_test (Rep1 (Cls digit)) nextKey then JArr [] [] else JObj [])"

text \<open>\<open>v\<close> inserted before position \<open>p\<close> of \<open>xs\<close> (at the end when \<open>p\<close> is not a position).\<close>

definition insert_before :: "nat \<Rightarrow> jsval \<Rightarrow> jsval list \<Rightarrow> jsval list" where
  "insert_before p v xs = take p xs @ v # drop p xs"









section \<open>Properties\<close>

subsection \<open>The matcher decides the language\<close>

lemma nil_in_conc: "[] \<in> conc A B \<longleftrightarrow> [] \<in> A \<and> [] \<in> B"
  by (auto simp: conc_def)

lemma cons_in_conc:
  "c # s \<in> conc A B \<longleftrightarrow>
     (\<exists>u v. s = u @ v \<and> c # u \<in> A \<and> v \<in> B) \<or> ([] \<in> A \<and> c # s \<in> B)"
  by (auto simp: conc_def Cons_eq_append_conv) 

lemma star_cons_split:
  assumes "w \<in> star A" and "w = c # s"
  shows "\<exists>u v. s = u @ v \<and> c # u \<in> A \<and> v \<in> star A"
  using assms
proof (induction arbitrary: s)
  case star_nil
  then show ?case by simp
next
  case (star_app u v)
  show ?case
  proof (cases u)
    case Nil
    with star_app show ?thesis by simp
  next
    case (Cons a u')
    with star_app.prems have "a = c" and "s = u' @ v" by simp_all
    with Cons star_app.hyps show ?thesis by blast
  qed
qed

lemma cons_in_star:
  "c # s \<in> star A \<longleftrightarrow> (\<exists>u v. s = u @ v \<and> c # u \<in> A \<and> v \<in> star A)"
proof
  assume "c # s \<in> star A"
  then show "\<exists>u v. s = u @ v \<and> c # u \<in> A \<and> v \<in> star A"
    by (rule star_cons_split) simp
next
  assume "\<exists>u v. s = u @ v \<and> c # u \<in> A \<and> v \<in> star A"
  then obtain u v where "s = u @ v" "c # u \<in> A" "v \<in> star A" by blast
  then show "c # s \<in> star A"
    using star_app [of "c # u" A v] by simp
qed

lemma nullable_lang: "nullable r \<longleftrightarrow> [] \<in> lang r"
  by (induction r) (auto simp: nil_in_conc star_nil)

lemma conc_deriv_left:
  assumes "\<And>u. u \<in> D \<longleftrightarrow> c # u \<in> A"
  shows "s \<in> conc D B \<longleftrightarrow> (\<exists>u v. s = u @ v \<and> c # u \<in> A \<and> v \<in> B)"
  using assms by (auto simp: conc_def)

lemma lang_deriv: "s \<in> lang (deriv c r) \<longleftrightarrow> c # s \<in> lang r"
proof (induction r arbitrary: s)
  case (Cat r1 r2)
  show ?case
    using conc_deriv_left [of "lang (deriv c r1)" c "lang r1" s "lang r2"] Cat
    by (simp add: cons_in_conc nullable_lang)
next
  case (Rep r)
  show ?case
    using conc_deriv_left [of "lang (deriv c r)" c "lang r" s "star (lang r)"] Rep
    by (simp add: cons_in_star)
next
  case (Rep1 r)
  show ?case
    using conc_deriv_left [of "lang (deriv c r)" c "lang r" s "star (lang r)"] Rep1
    by (auto simp: cons_in_conc cons_in_star)
qed auto

lemma regex_test_lang: "regex_test r s \<longleftrightarrow> s \<in> lang r"
  by (induction s arbitrary: r) (simp_all add: nullable_lang lang_deriv)

lemma star_cls: "star {[c] | c. p c} = {cs. list_all p cs}"
proof (intro set_eqI iffI)
  fix w assume "w \<in> star {[c] | c. p c}"
  then show "w \<in> {cs. list_all p cs}"
    by induction auto
next
  fix w assume "w \<in> {cs. list_all p cs}"
  then have "list_all p w" by simp
  then show "w \<in> star {[c] | c. p c}"
  proof (induction w)
    case Nil
    show ?case by (rule star_nil)
  next
    case (Cons a w)
    then have "[a] \<in> {[c] | c. p c}" and "w \<in> star {[c] | c. p c}" by simp_all
    then have "[a] @ w \<in> star {[c] | c. p c}" by (rule star_app)
    then show ?case by simp
  qed
qed

lemma concI: "u \<in> A \<Longrightarrow> v \<in> B \<Longrightarrow> u @ v \<in> conc A B"
  unfolding conc_def by blast

lemma in_conc_cls:
  "w \<in> conc {[c] | c. p c} B \<longleftrightarrow> (case w of [] \<Rightarrow> False | c # v \<Rightarrow> p c \<and> v \<in> B)"
proof (cases w)
  case Nil
  then show ?thesis by (auto simp: conc_def)
next
  case (Cons a l)
  have "a # l \<in> conc {[c] | c. p c} B" if "p a" "l \<in> B"
    using concI [of "[a]" "{[c] | c. p c}" l B] that by simp
  moreover have "p a \<and> l \<in> B" if "a # l \<in> conc {[c] | c. p c} B"
    using that by (auto simp: conc_def)
  ultimately show ?thesis using Cons by auto
qed

lemma lang_identifier:
  "lang (Cat (Cls ident_start) (Rep (Cls ident_char))) = {s. g_identifier s}"
  by (auto simp: star_cls in_conc_cls g_identifier_def split: list.splits)

lemma lang_digits: "lang (Rep1 (Cls digit)) = {s. g_digits s}"
  by (auto simp: star_cls in_conc_cls g_digits_def split: list.splits)

lemma minus_not_digit: "\<not> digit CHR ''-''"
  by (simp add: digit_def)

lemma in_conc_opt_minus:
  "w \<in> conc {[], ''-''} B \<longleftrightarrow>
     w \<in> B \<or> (case w of [] \<Rightarrow> False | c # v \<Rightarrow> c = CHR ''-'' \<and> v \<in> B)"
proof -
  have "w \<in> conc {[], ''-''} B" if "w \<in> B"
    using concI [of "[]" "{[], ''-''}" w B] that by simp
  moreover have "CHR ''-'' # v \<in> conc {[], ''-''} B" if "v \<in> B" for v
    using concI [of "''-''" "{[], ''-''}" v B] that by simp
  moreover have "w \<in> B \<or> (\<exists>v. w = CHR ''-'' # v \<and> v \<in> B)" if "w \<in> conc {[], ''-''} B"
    using that by (auto simp: conc_def)
  ultimately show ?thesis by (cases w) auto
qed

lemma lang_index: "lang (Cat (Opt (lit CHR ''-'')) (Rep1 (Cls digit))) = {s. g_index s}"
proof -
  have "lang (Cat (Opt (lit CHR ''-'')) (Rep1 (Cls digit)))
        = conc {[], ''-''} {s. g_digits s}"
    using lang_digits by (auto simp: lit_def)
  also have "\<dots> = {s. g_index s}"
    using minus_not_digit
    by (auto simp: in_conc_opt_minus g_index_def g_digits_def split: list.splits)
  finally show ?thesis .
qed

lemma lang_VALID_IDENTIFIER: "lang VALID_IDENTIFIER = {s. segment g_digits s}"
proof -
  have "lang VALID_IDENTIFIER
        = conc {s. g_identifier s} (insert [] (conc {''[''} (conc {s. g_digits s} {'']''})))"
    unfolding VALID_IDENTIFIER_def using lang_identifier lang_digits
    by (simp add: lit_def)
  also have "\<dots> = {s. segment g_digits s}"
    by (auto simp: conc_def segment.simps)
  finally show ?thesis .
qed

lemma segments_star:
  assumes "s \<in> S" and "r \<in> star (conc {''.''} S)" and "S = {s. segment b s}"
  shows "segments b (s @ r)"
  using assms(2,1)
proof (induction arbitrary: s)
  case star_nil
  with assms(3) show ?case by (simp add: segs_one)
next
  case (star_app u v)
  from star_app.hyps(1) obtain t where u: "u = ''.'' @ t" and t: "t \<in> S"
    by (auto simp: conc_def)
  from star_app.IH [OF t] have "segments b (t @ v)" .
  moreover from star_app.prems assms(3) have "segment b s" by simp
  ultimately have "segments b (s @ ''.'' @ (t @ v))" by (rule segs_dot [rotated])
  with u show ?case by simp
qed

lemma star_segments:
  assumes "segments b p"
  shows "p \<in> conc {s. segment b s} (star (conc {''.''} {s. segment b s}))"
  using assms
proof induction
  case (segs_one s)
  then have "s @ [] \<in> conc {s. segment b s} (star (conc {''.''} {s. segment b s}))"
    unfolding conc_def using star_nil by blast
  then show ?case by simp
next
  case (segs_dot s p)
  from segs_dot.IH obtain t r where p: "p = t @ r" and t: "segment b t"
    and r: "r \<in> star (conc {''.''} {s. segment b s})"
    by (auto simp: conc_def)
  from t have "''.'' @ t \<in> conc {''.''} {s. segment b s}"
    unfolding conc_def by blast
  then have "(''.'' @ t) @ r \<in> star (conc {''.''} {s. segment b s})"
    using r by (rule star_app)
  with segs_dot.hyps(1) p show ?case
    unfolding conc_def by auto
qed

lemma lang_segments:
  "conc {s. segment b s} (star (conc {''.''} {s. segment b s})) = {p. segments b p}"
proof (intro set_eqI iffI)
  fix p assume "p \<in> conc {s. segment b s} (star (conc {''.''} {s. segment b s}))"
  then show "p \<in> {p. segments b p}"
    using segments_star [of _ "{s. segment b s}" _ b] by (auto simp: conc_def)
next
  fix p assume "p \<in> {p. segments b p}"
  then show "p \<in> conc {s. segment b s} (star (conc {''.''} {s. segment b s}))"
    using star_segments by simp
qed

lemma conc_assoc: "conc (conc A B) C = conc A (conc B C)"
  unfolding conc_def by auto (metis append_assoc)+

lemma lang_PROPERTY_PATH_REGEX: "lang PROPERTY_PATH_REGEX = {p. grammar_path g_digits p}"
proof -
  have "lang PROPERTY_PATH_REGEX
        = conc (conc {s. segment g_digits s} (star (conc {''.''} {s. segment g_digits s})))
               (insert [] (conc {''@''} {s. g_index s}))"
    unfolding PROPERTY_PATH_REGEX_def using lang_VALID_IDENTIFIER lang_index
    by (simp add: conc_assoc) (simp add: lit_def)
  also have "\<dots> = conc {p. segments g_digits p} (insert [] (conc {''@''} {s. g_index s}))"
    by (simp only: lang_segments)
  also have "\<dots> = {p. grammar_path g_digits p}"
    by (auto simp: conc_def grammar_path.simps)
  finally show ?thesis .
qed

subsection \<open>The path grammar\<close>

lemmas path_evals =
  isValidPropertyPath_def PROPERTY_PATH_REGEX_def VALID_IDENTIFIER_def lit_def
  digit_def ident_start_def ident_char_def

text \<open>
  C1. The claim asks that \<^verbatim>\<open>isValidPropertyPath\<close> accept exactly the paths of the grammar
  of the specification. In that grammar a bracket index is an \<open>index\<close>, which may start
  with \<^verbatim>\<open>-\<close>; the pattern of the code has \<^verbatim>\<open>\[\d+\]\<close>, so \<^verbatim>\<open>items[-1]\<close> is a path of the
  grammar that the code rejects.
\<close>

theorem C1_bracket_minus_counterexample:
  "spec_path ''items[-1]'' \<and> \<not> isValidPropertyPath ''items[-1]''"
proof
  have "g_identifier ''items''"
    by (simp add: g_identifier_def ident_start_def ident_char_def digit_def)
  moreover have "g_index ''-1''"
    by (simp add: g_index_def g_digits_def digit_def)
  ultimately have "segment g_index (''items'' @ ''['' @ ''-1'' @ '']'')"
    by (rule seg_bracket)
  then have "grammar_path g_index (''items'' @ ''['' @ ''-1'' @ '']'')"
    by (intro path_plain segs_one)
  then show "spec_path ''items[-1]''"
    by (simp add: spec_path_def)
next
  show "\<not> isValidPropertyPath ''items[-1]''"
    by (simp add: path_evals)
qed

text \<open>
  C1, as amended. For every string, \<^verbatim>\<open>isValidPropertyPath\<close> returns true if and only if
  the whole string is a path of the grammar in which a bracket index is \<^verbatim>\<open>digit+\<close> (only
  the index after \<^verbatim>\<open>@\<close> may carry a \<^verbatim>\<open>-\<close>). It accepts \<^verbatim>\<open>name\<close>, \<^verbatim>\<open>user.name\<close>,
  \<^verbatim>\<open>items[0]\<close>, \<^verbatim>\<open>items[0].name\<close>, \<^verbatim>\<open>items@0\<close> and \<^verbatim>\<open>user.items@0\<close>, and rejects the
  empty string, \<^verbatim>\<open>123\<close>, \<^verbatim>\<open>.name\<close> and \<^verbatim>\<open>name.\<close>.
\<close>

theorem C1_isValidPropertyPath_grammar:
  "(isValidPropertyPath p \<longleftrightarrow> unsigned_bracket_path p)
   \<and> isValidPropertyPath ''name'' \<and> isValidPropertyPath ''user.name''
   \<and> isValidPropertyPath ''items[0]'' \<and> isValidPropertyPath ''items[0].name''
   \<and> isValidPropertyPath ''items@0'' \<and> isValidPropertyPath ''user.items@0''
   \<and> \<not> isValidPropertyPath [] \<and> \<not> isValidPropertyPath ''123''
   \<and> \<not> isValidPropertyPath ''.name'' \<and> \<not> isValidPropertyPath ''name.''"
proof -
  have "isValidPropertyPath p \<longleftrightarrow> unsigned_bracket_path p"
    by (simp add: isValidPropertyPath_def regex_test_lang lang_PROPERTY_PATH_REGEX
        unsigned_bracket_path_def)
  moreover have "isValidPropertyPath ''name''" by (simp add: path_evals)
  moreover have "isValidPropertyPath ''user.name''" by (simp add: path_evals)
  moreover have "isValidPropertyPath ''items[0]''" by (simp add: path_evals)
  moreover have "isValidPropertyPath ''items[0].name''" by (simp add: path_evals)
  moreover have "isValidPropertyPath ''items@0''" by (simp add: path_evals)
  moreover have "isValidPropertyPath ''user.items@0''" by (simp add: path_evals)
  moreover have "\<not> isValidPropertyPath []" by (simp add: path_evals)
  moreover have "\<not> isValidPropertyPath ''123''" by (simp add: path_evals)
  moreover have "\<not> isValidPropertyPath ''.name''" by (simp add: path_evals)
  moreover have "\<not> isValidPropertyPath ''name.''" by (simp add: path_evals)
  ultimately show ?thesis by blast
qed

theorem C1_isValidPropertyPath_grammar_witness:
  "isValidPropertyPath ''items[12].name@-1'' \<and> unsigned_bracket_path ''items[12].name@-1''"
proof -
  have "isValidPropertyPath ''items[12].name@-1''" by (simp add: path_evals)
  then show ?thesis
    using C1_isValidPropertyPath_grammar [of "''items[12].name@-1''"] by blast
qed

subsection \<open>Reconciliation\<close>

lemmas diff_evals =
  identifyChanges_def identifyInactive_def claimed_resurrection_def resurrected_def
  existing_named_def resurrects_def deleted_flag_def record_name_def record_id_def
  resurrection_error_def missing_error_def named_def throws_def lookup_def js_trim_def
  whitespace_def Let_def

lemma inactive_loop_closed:
  "inactive_loop config pids options items acc =
     (case (if throwOnMissing options = Some True
            then find (\<lambda>item. \<not> deleted_flag config item)
                   (filter (\<lambda>item. record_id config item \<notin> pids) items)
            else None) of
        Some item \<Rightarrow> Inl (missing_error (record_name config item))
      | None \<Rightarrow>
          Inr (acc @ map (\<lambda>item. named (record_name config item))
                       (filter (\<lambda>item. record_id config item \<notin> pids) items)))"
proof (induction items arbitrary: acc)
  case Nil
  then show ?case by simp
next
  case (Cons item items)
  show ?case
    by (simp add: Cons.IH Let_def)
       (simp add: record_id_def record_name_def named_def missing_error_def
             split: option.splits)
qed

text \<open>
  C6. For the existing records whose stringified, trimmed id is not in \<open>processedIds\<close>
  (the filter; a record whose id is in the set is never reported): if
  \<^verbatim>\<open>throwOnMissing\<close> is true, given or by default, and one of them is not soft-deleted, the
  call raises the Missing error naming the first such record; otherwise it returns, in
  order, the object \<^verbatim>\<open>{ name }\<close> of every one of them, so with \<^verbatim>\<open>throwOnMissing\<close> false a
  record that is not soft-deleted is reported without raising, and a soft-deleted one is
  reported in either case.
\<close>

theorem C6_identifyInactive:
  "identifyInactive existingItems pids config options =
     (case (if throws options
            then find (\<lambda>item. \<not> deleted_flag config item)
                   (filter (\<lambda>item. record_id config item \<notin> pids) existingItems)
            else None) of
        Some item \<Rightarrow> Inl (missing_error (record_name config item))
      | None \<Rightarrow>
          Inr (map (\<lambda>item. named (record_name config item))
                 (filter (\<lambda>item. record_id config item \<notin> pids) existingItems)))"
  by (cases options)
     (simp_all add: identifyInactive_def inactive_loop_closed throws_def split: option.splits)

theorem C6_identifyInactive_witness:
  "identifyInactive
     [JObj [(''id'', JStr ''1''), (''name'', JStr ''A''), (''isDeleted'', JBool False)]] {}
     \<lparr>idField = ''id'', nameField = ''name'', isDeletedField = Some ''isDeleted'',
      ignoreFields = None\<rparr> None
   = Inl (InactiveItemError ''Item missing from import: A'' ''A'' MISSING)
   \<and> identifyInactive
     [JObj [(''id'', JStr ''1''), (''name'', JStr ''A''), (''isDeleted'', JBool False)]] {}
     \<lparr>idField = ''id'', nameField = ''name'', isDeletedField = Some ''isDeleted'',
      ignoreFields = None\<rparr> (Some \<lparr>throwOnMissing = Some False\<rparr>)
   = Inr [JObj [(''name'', JStr ''A'')]]
   \<and> identifyInactive
     [JObj [(''id'', JStr ''1''), (''name'', JStr ''A''), (''isDeleted'', JBool False)]] {''1''}
     \<lparr>idField = ''id'', nameField = ''name'', isDeletedField = Some ''isDeleted'',
      ignoreFields = None\<rparr> None
   = Inr []"
  using
    C6_identifyInactive
      [where existingItems =
         "[JObj [(''id'', JStr ''1''), (''name'', JStr ''A''), (''isDeleted'', JBool False)]]"
       and pids = "{}"
       and config = "\<lparr>idField = ''id'', nameField = ''name'',
                      isDeletedField = Some ''isDeleted'', ignoreFields = None\<rparr>"
       and options = "None"]
    C6_identifyInactive
      [where existingItems =
         "[JObj [(''id'', JStr ''1''), (''name'', JStr ''A''), (''isDeleted'', JBool False)]]"
       and pids = "{}"
       and config = "\<lparr>idField = ''id'', nameField = ''name'',
                      isDeletedField = Some ''isDeleted'', ignoreFields = None\<rparr>"
       and options = "Some \<lparr>throwOnMissing = Some False\<rparr>"]
    C6_identifyInactive
      [where existingItems =
         "[JObj [(''id'', JStr ''1''), (''name'', JStr ''A''), (''isDeleted'', JBool False)]]"
       and pids = "{''1''}"
       and config = "\<lparr>idField = ''id'', nameField = ''name'',
                      isDeletedField = Some ''isDeleted'', ignoreFields = None\<rparr>"
       and options = "None"]
  by (simp add: deleted_flag_def record_id_def record_name_def missing_error_def named_def
        throws_def lookup_def js_trim_def whitespace_def)

lemma find_snoc:
  "find P (xs @ [x]) = (case find P xs of None \<Rightarrow> (if P x then Some x else None) | Some y \<Rightarrow> Some y)"
  by (induction xs) simp_all

lemma build_existingMap_find:
  "build_existingMap nf items m name =
     (case find (\<lambda>oldItem. String_js (get_prop oldItem nf) = name) (rev items) of
        None \<Rightarrow> m name
      | Some oldItem \<Rightarrow> Some oldItem)"
proof (induction items arbitrary: m)
  case Nil
  then show ?case by simp
next
  case (Cons item items)
  show ?case
    by (simp add: Cons.IH find_snoc split: option.splits)
qed

lemma existingMap_existing_named:
  "build_existingMap (nameField config) existingItems Map.empty name
   = existing_named config existingItems name"
  by (simp add: build_existingMap_find existing_named_def record_name_def split: option.splits)

lemma identify_loop_closed:
  assumes "\<forall>(oldItem, newItem) \<in> set (updates acc). \<not> resurrects config newItem oldItem"
  shows "case find (refused config m) items of
           Some item \<Rightarrow>
             identify_loop config m items acc = Inl (resurrection_error (record_name config item))
         | None \<Rightarrow>
             (\<exists>r. identify_loop config m items acc = Inr r
                  \<and> (\<forall>(oldItem, newItem) \<in> set (updates r). \<not> resurrects config newItem oldItem))"
  using assms
proof (induction items arbitrary: acc)
  case Nil
  then show ?case by simp
next
  case (Cons item items)
  show ?case
  proof (cases "refused config m item")
    case True
    then show ?thesis
      by (auto simp: refused_def record_name_def resurrection_error_def Let_def
               split: option.splits)
  next
    case False
    note notref = this
    show ?thesis
    proof (cases "truthy (get_prop item (nameField config))")
      case False
      with notref Cons.IH [OF Cons.prems] show ?thesis by (simp split: option.splits)
    next
      case True
      show ?thesis
      proof (cases "m (record_name config item)")
        case None
        let ?acc = "acc\<lparr>inserts := inserts acc @ [item],
                        processedIds := insert (String_js (get_prop item (idField config)))
                                          (processedIds acc)\<rparr>"
        have "\<forall>(oldItem, newItem) \<in> set (updates ?acc). \<not> resurrects config newItem oldItem"
          using Cons.prems by simp
        from Cons.IH [OF this] notref True None show ?thesis
          by (simp add: record_name_def Let_def split: option.splits)
      next
        case (Some oldItem)
        with notref True have nr: "\<not> resurrects config item oldItem"
          by (simp add: refused_def)
        let ?pid = "String_js (get_prop item (idField config))"
        let ?acc1 = "acc\<lparr>updates := updates acc @ [(oldItem, item)],
                         processedIds := insert ?pid (processedIds acc)\<rparr>"
        let ?acc2 = "acc\<lparr>processedIds := insert ?pid (processedIds acc)\<rparr>"
        have 1: "\<forall>(oldItem, newItem) \<in> set (updates ?acc1). \<not> resurrects config newItem oldItem"
          using Cons.prems nr by simp
        have 2: "\<forall>(oldItem, newItem) \<in> set (updates ?acc2). \<not> resurrects config newItem oldItem"
          using Cons.prems by simp
        from Cons.IH [OF 1] Cons.IH [OF 2] notref True Some nr show ?thesis
          by (simp add: record_name_def Let_def split: option.splits)
      qed
    qed
  qed
qed

lemma refused_resurrected:
  "refused config (build_existingMap (nameField config) existingItems Map.empty)
   = resurrected config existingItems"
  by (rule ext) (simp add: refused_def resurrected_def existingMap_existing_named)

text \<open>
  C5. The claim makes the Resurrection error equivalent to: \<^verbatim>\<open>isDeletedField\<close> is
  configured and some incoming record is marked not deleted while the existing record
  sharing its name is marked deleted. The loop skips an incoming record whose name is
  falsy before it looks the name up, so two records that share the empty name, the
  existing one deleted and the incoming one not, raise nothing.
\<close>

theorem C5_empty_name_counterexample:
  "claimed_resurrection
     \<lparr>idField = ''id'', nameField = ''name'', isDeletedField = Some ''isDeleted'',
      ignoreFields = None\<rparr>
     [JObj [(''id'', JStr ''1''), (''name'', JStr []), (''isDeleted'', JBool False)]]
     [JObj [(''id'', JStr ''1''), (''name'', JStr []), (''isDeleted'', JBool True)]]
   \<and> identifyChanges
     [JObj [(''id'', JStr ''1''), (''name'', JStr []), (''isDeleted'', JBool False)]]
     [JObj [(''id'', JStr ''1''), (''name'', JStr []), (''isDeleted'', JBool True)]]
     \<lparr>idField = ''id'', nameField = ''name'', isDeletedField = Some ''isDeleted'',
      ignoreFields = None\<rparr>
     = Inr \<lparr>inserts = [], updates = [], processedIds = {}\<rparr>"
  by (simp add: diff_evals)

text \<open>
  C5, as amended. \<^verbatim>\<open>identifyChanges\<close> raises the Resurrection error
  (\<^verbatim>\<open>InactiveItemError\<close> of kind \<^verbatim>\<open>ALREADY_DELETED\<close>, naming the record) if and only if
  some incoming record is \<open>resurrected\<close>: its name is truthy, \<^verbatim>\<open>isDeletedField\<close> is
  configured (and not the empty string), the record is marked not deleted, and the
  existing record under its name (the last one of that name) is marked deleted. The
  error names the first such incoming record and the call returns no result; when no
  incoming record is resurrected the call returns a result, and no update of that result
  pairs a deleted existing record with an incoming record that is not deleted.
\<close>

theorem C5_identifyChanges_resurrection:
  "case find (resurrected config existingItems) newItems of
     Some item \<Rightarrow>
       identifyChanges newItems existingItems config
         = Inl (resurrection_error (record_name config item))
   | None \<Rightarrow>
       (\<exists>r. identifyChanges newItems existingItems config = Inr r
            \<and> (\<forall>(oldItem, newItem) \<in> set (updates r). \<not> resurrects config newItem oldItem))"
  using identify_loop_closed
          [of "\<lparr>inserts = [], updates = [], processedIds = {}\<rparr>" config
              "build_existingMap (nameField config) existingItems Map.empty" newItems]
  by (simp add: identifyChanges_def refused_resurrected split: option.splits)

theorem C5_identifyChanges_resurrection_witness:
  "identifyChanges
     [JObj [(''id'', JStr ''1''), (''name'', JStr ''A''), (''isDeleted'', JBool False)]]
     [JObj [(''id'', JStr ''1''), (''name'', JStr ''A''), (''isDeleted'', JBool True)]]
     \<lparr>idField = ''id'', nameField = ''name'', isDeletedField = Some ''isDeleted'',
      ignoreFields = None\<rparr>
   = Inl (InactiveItemError ''Cannot resurrect deleted item: A'' ''A'' ALREADY_DELETED)"
  using C5_identifyChanges_resurrection
    [where config = "\<lparr>idField = ''id'', nameField = ''name'',
                      isDeletedField = Some ''isDeleted'', ignoreFields = None\<rparr>"
       and existingItems =
         "[JObj [(''id'', JStr ''1''), (''name'', JStr ''A''), (''isDeleted'', JBool True)]]"
       and newItems =
         "[JObj [(''id'', JStr ''1''), (''name'', JStr ''A''), (''isDeleted'', JBool False)]]"]
  by (simp add: resurrected_def existing_named_def resurrects_def record_name_def
        resurrection_error_def lookup_def)

subsection \<open>Decoding of \<^verbatim>\<open>OBJECT\<close> values\<close>

lemma hex_digit_ok:
  assumes "m < 16"
  shows "radix_digit 16 (hex_digit m) \<and> digit_val (hex_digit m) = m"
  using assms by (simp add: hex_digit_def radix_digit_def digit_val_def Let_def)

lemma zero_digit_ok: "radix_digit 16 CHR ''0'' \<and> digit_val CHR ''0'' = 0"
  by (simp add: radix_digit_def digit_val_def)

lemma char_eq_of_char: "(of_char c :: nat) = n \<Longrightarrow> c = char_of n"
  by auto

lemma string_body_quote_char:
  "json_string_body (quote_char c @ r) acc = json_string_body r (c # acc)"
proof -
  define n :: nat where "n = of_char c"
  have c: "c = char_of n" by (simp add: n_def)
  have q: "of_char (CHR 0x22) = (34 :: nat)" and b: "of_char (CHR 0x5C) = (92 :: nat)"
    by simp_all
  consider "c = CHR 0x22" | "c = CHR 0x5C" | "n = 8" | "n = 9" | "n = 10" | "n = 12" | "n = 13"
    | "n < 32" "n \<noteq> 8" "n \<noteq> 9" "n \<noteq> 10" "n \<noteq> 12" "n \<noteq> 13"
    | "32 \<le> n" "c \<noteq> CHR 0x22" "c \<noteq> CHR 0x5C"
    by linarith
  then show ?thesis
  proof cases
    case 1
    then show ?thesis by (simp add: quote_char_def unescape_def)
  next
    case 2
    then show ?thesis by (simp add: quote_char_def unescape_def)
  next
    case 3
    then have "c \<noteq> CHR 0x22" "c \<noteq> CHR 0x5C" using q b n_def by auto
    with 3 show ?thesis
      using c by (simp add: quote_char_def unescape_def n_def [symmetric] Let_def)
  next
    case 4
    then have "c \<noteq> CHR 0x22" "c \<noteq> CHR 0x5C" using q b n_def by auto
    with 4 show ?thesis
      using c by (simp add: quote_char_def unescape_def n_def [symmetric] Let_def)
  next
    case 5
    then have "c \<noteq> CHR 0x22" "c \<noteq> CHR 0x5C" using q b n_def by auto
    with 5 show ?thesis
      using c by (simp add: quote_char_def unescape_def n_def [symmetric] Let_def)
  next
    case 6
    then have "c \<noteq> CHR 0x22" "c \<noteq> CHR 0x5C" using q b n_def by auto
    with 6 show ?thesis
      using c by (simp add: quote_char_def unescape_def n_def [symmetric] Let_def)
  next
    case 7
    then have "c \<noteq> CHR 0x22" "c \<noteq> CHR 0x5C" using q b n_def by auto
    with 7 show ?thesis
      using c by (simp add: quote_char_def unescape_def n_def [symmetric] Let_def)
  next
    case 8
    then have ne: "c \<noteq> CHR 0x22" "c \<noteq> CHR 0x5C" using q b n_def by auto
    from 8 have d: "n div 16 < 16" "n mod 16 < 16" by simp_all
    have v: "digits_val 16 [CHR ''0'', CHR ''0'', hex_digit (n div 16), hex_digit (n mod 16)] = n"
      using hex_digit_ok [OF d(1)] hex_digit_ok [OF d(2)] zero_digit_ok
      by (simp add: digits_val_def)
    show ?thesis
      using 8 ne c v hex_digit_ok [OF d(1)] hex_digit_ok [OF d(2)] zero_digit_ok
      by (simp add: quote_char_def n_def [symmetric] Let_def)
  next
    case 9
    then show ?thesis
      by (simp add: quote_char_def n_def [symmetric] Let_def)
  qed
qed

lemma string_body_quoted:
  "json_string_body (concat (map quote_char s) @ CHR 0x22 # r) acc = Some (rev acc @ s, r)"
  by (induction s arbitrary: acc) (simp_all add: string_body_quote_char)

lemma json_ws_quote: "\<not> json_ws (CHR 0x22)"
  by (simp add: json_ws_def)

lemma JSON_parse_quote_string: "JSON_parse (quote_string s) = Some (JStr s)"
  using string_body_quoted [of s "[]" "[]"]
  by (simp add: JSON_parse_def quote_string_def skip_ws_def json_ws_quote json_value.simps)

lemmas json_evals =
  JSON_parse_def json_value.simps json_elements.simps json_members.simps skip_ws_def
  json_ws_def quote_string_def quote_char_def strip_prefix_def json_number_def unescape_def
  digit_def digits_val_def digit_val_def Let_def

text \<open>
  C3. The claim has every JSON-serializable \<open>x\<close> come back from its single encoding
  \<^verbatim>\<open>JSON.stringify(x)\<close>. When \<open>x\<close> is a string, the first \<^verbatim>\<open>JSON.parse\<close> returns that
  string, the code takes it for a double encoding and parses it again: for \<^verbatim>\<open>"hello"\<close>
  the second parse fails and \<^verbatim>\<open>parseValue\<close> raises.
\<close>

theorem C3_single_encoded_string_counterexample:
  "JSON_stringify (JStr ''hello'') = Some (quote_string ''hello'')
   \<and> JSON_parse (quote_string ''hello'') = Some (JStr ''hello'')
   \<and> parseValue (quote_string ''hello'') OBJECT
       = Inl (Error (''Failed to parse object value: '' @ quote_string ''hello''))"
proof -
  have "JSON_parse ''hello'' = None"
    by (simp add: json_evals)
  then show ?thesis
    by (simp add: JSON_parse_quote_string)
qed

text \<open>
  C3, as amended. Let \<open>x\<close> be JSON-serializable: \<^verbatim>\<open>JSON.stringify(x)\<close> is a text \<open>s\<close> and
  \<^verbatim>\<open>JSON.parse(s)\<close> is \<open>x\<close>. Then an \<^verbatim>\<open>OBJECT\<close>-typed \<open>newValue\<close> equal to
  \<^verbatim>\<open>JSON.stringify(JSON.stringify(x))\<close> decodes to \<open>x\<close>, and one equal to \<open>s\<close> decodes to
  \<open>x\<close> provided \<open>x\<close> is not a string. A \<open>newValue\<close> \<open>v\<close> fails to decode exactly when
  \<^verbatim>\<open>JSON.parse(v)\<close> fails or yields a string whose own parse fails, and the error raised
  is then \<^verbatim>\<open>Error("Failed to parse object value: " + v)\<close>.
\<close>

theorem C3_parseValue_object:
  "(JSON_stringify x = Some s \<longrightarrow> JSON_parse s = Some x \<longrightarrow>
      JSON_stringify (JStr s) = Some (quote_string s)
      \<and> parseValue (quote_string s) OBJECT = Inr x
      \<and> ((\<forall>t. x \<noteq> JStr t) \<longrightarrow> parseValue s OBJECT = Inr x))
   \<and> (parseValue v OBJECT = Inl e \<longleftrightarrow>
        (JSON_parse v = None \<or> (\<exists>t. JSON_parse v = Some (JStr t) \<and> JSON_parse t = None))
        \<and> e = Error (''Failed to parse object value: '' @ v))"
proof (intro conjI impI)
  show "JSON_stringify (JStr s) = Some (quote_string s)"
    by simp
next
  assume "JSON_parse s = Some x"
  then show "parseValue (quote_string s) OBJECT = Inr x"
    by (simp add: JSON_parse_quote_string)
next
  assume "JSON_parse s = Some x" and "\<forall>t. x \<noteq> JStr t"
  then show "parseValue s OBJECT = Inr x"
    by (cases x) simp_all
next
  show "parseValue v OBJECT = Inl e \<longleftrightarrow>
        (JSON_parse v = None \<or> (\<exists>t. JSON_parse v = Some (JStr t) \<and> JSON_parse t = None))
        \<and> e = Error (''Failed to parse object value: '' @ v)"
    by (auto split: option.splits jsval.splits)
qed

theorem C3_parseValue_object_witness:
  "parseValue
     (quote_string (CHR ''{'' # quote_string ''city'' @ CHR '':'' # quote_string ''Paris'' @ ''}''))
     OBJECT
   = Inr (JObj [(''city'', JStr ''Paris'')])
   \<and> parseValue (CHR ''{'' # quote_string ''city'' @ CHR '':'' # quote_string ''Paris'' @ ''}'')
       OBJECT
   = Inr (JObj [(''city'', JStr ''Paris'')])"
proof -
  let ?s = "CHR ''{'' # quote_string ''city'' @ CHR '':'' # quote_string ''Paris'' @ ''}''"
  let ?x = "JObj [(''city'', JStr ''Paris'')]"
  have 1: "JSON_stringify ?x = Some ?s"
    by simp
  have 2: "JSON_parse ?s = Some ?x"
    by (simp add: json_evals)
  show ?thesis
    using C3_parseValue_object [where x = ?x and s = ?s] 1 2 by simp
qed

subsection \<open>Reading and writing one property\<close>

lemma is_object_not_nullish: "is_object v \<Longrightarrow> \<not> nullish v"
  by (cases v) simp_all

lemma lookup_update: "lookup (AList.update k v ps) k' = (if k' = k then v else lookup ps k')"
  by (simp add: lookup_def update_conv')



lemma get_prop_primitive: "\<not> is_object v \<Longrightarrow> \<not> is_object (get_prop v k)"
  by (cases v) simp_all


lemma get_prop_with_prop:
  "is_object (get_prop cur k) \<Longrightarrow> get_prop (with_prop cur k c) k = c"
  by (cases cur) (auto simp: lookup_update split: if_splits)



lemma with_prop_kind:
  "is_array (with_prop cur k c) = is_array cur"
  "is_plain_object (with_prop cur k c) = is_plain_object cur"
  "is_object (with_prop cur k c) = is_object cur"
  "nullish (with_prop cur k c) = nullish cur"
  by (cases cur; simp)+


lemma walk_nullish: "nullish v \<Longrightarrow> nullish (walk v ks)"
  by (cases ks) simp_all

lemma walk_primitive: "\<not> is_object v \<Longrightarrow> \<not> is_object (walk v ks)"
  by (induction ks arbitrary: v) (auto simp: get_prop_primitive)

lemma walk_append: "walk v (ks @ ks') = walk (walk v ks) ks'"
proof (induction ks arbitrary: v)
  case Nil
  then show ?case by simp
next
  case (Cons k ks)
  have "walk JUndefined ks' = JUndefined" by (cases ks') simp_all
  then show ?case using Cons by simp
qed







subsection \<open>\<^verbatim>\<open>setPropertyValue\<close>\<close>















lemma walk_Cons_object: "\<not> nullish cur \<Longrightarrow> walk cur (k # ks) = walk (get_prop cur k) ks"
  by simp





lemma walk_object_start: "is_object (walk cur ks) \<Longrightarrow> is_object cur"
  using walk_primitive [of cur ks] by blast


lemmas path_engine_evals =
  setPropertyValue_def getPropertyValue_def deleteProperty_def insertAtIndex_def
  removeAtIndex_def setValueAtIndex_def parsePath_def split_at_def parse_index_def
  parseInt10_def whitespace_def digit_def array_index_def index_val_def digits_val_def
  digit_val_def set_elem_def lookup_def splice_insert_def splice_remove_def splice_start_def
  num_of_index_def trunc_def container_for_def



subsection \<open>The array operations\<close>

lemma modify_at_walk:
  assumes "is_object (walk cur ks)"
  shows "walk (fst (modify_at cur ks f)) ks = fst (f (walk cur ks))
         \<and> snd (modify_at cur ks f) = snd (f (walk cur ks))"
  using assms
proof (induction ks arbitrary: cur)
  case Nil
  then show ?case by (simp add: is_object_not_nullish)
next
  case (Cons k ks)
  from Cons.prems have obj: "is_object cur" by (rule walk_object_start)
  then have nn: "\<not> nullish cur" by (rule is_object_not_nullish)
  with Cons.prems have w: "is_object (walk (get_prop cur k) ks)" by simp
  then have objc: "is_object (get_prop cur k)" by (rule walk_object_start)
  then have nnc: "\<not> nullish (get_prop cur k)" by (rule is_object_not_nullish)
  obtain c r where M: "modify_at (get_prop cur k) ks f = (c, r)"
    by (cases "modify_at (get_prop cur k) ks f")
  have "modify_at cur (k # ks) f = (with_prop cur k c, r)"
    using nn nnc M by simp
  moreover have "\<not> nullish (with_prop cur k c)" using nn by (simp add: with_prop_kind)
  moreover have "get_prop (with_prop cur k c) k = c" using objc by (rule get_prop_with_prop)
  ultimately show ?case using Cons.IH [OF w] M nn by simp
qed

lemma get_keys_walk:
  "get_keys cur ks = (if \<exists>n < length ks. nullish (walk cur (take n ks)) then None
                      else Some (walk cur ks))"
proof (induction ks arbitrary: cur)
  case Nil
  then show ?case by simp
next
  case (Cons k ks)
  show ?case
  proof (cases "nullish cur")
    case True
    then have "nullish (walk cur (take 0 (k # ks)))" by simp
    then have "\<exists>n < length (k # ks). nullish (walk cur (take n (k # ks)))" by blast
    with True show ?thesis by simp
  next
    case False
    have "(\<exists>n < length (k # ks). nullish (walk cur (take n (k # ks))))
          \<longleftrightarrow> (\<exists>n < length ks. nullish (walk (get_prop cur k) (take n ks)))"
      (is "?L \<longleftrightarrow> ?R")
    proof
      assume ?L
      then obtain n where n: "n < length (k # ks)" "nullish (walk cur (take n (k # ks)))" by blast
      with False obtain m where "n = Suc m" by (cases n) auto
      with n False show ?R by auto
    next
      assume ?R
      then obtain m where "m < length ks" "nullish (walk (get_prop cur k) (take m ks))" by blast
      with False have "Suc m < length (k # ks)" "nullish (walk cur (take (Suc m) (k # ks)))"
        by simp_all
      then show ?L by blast
    qed
    with False Cons.IH [of "get_prop cur k"] show ?thesis by simp
  qed
qed

lemma walk_prefix_nullish:
  assumes "nullish (walk cur (take n ks))"
  shows "nullish (walk cur ks)"
proof -
  have "walk cur ks = walk (walk cur (take n ks)) (drop n ks)"
    using walk_append [of cur "take n ks" "drop n ks"] by simp
  with assms show ?thesis by (simp add: walk_nullish)
qed

lemma getPropertyValue_walk:
  "getPropertyValue obj path d
   = (if nullish (walk obj (parsePath path)) then d else walk obj (parsePath path))"
  using walk_prefix_nullish [of obj _ "parsePath path"]
  by (auto simp: getPropertyValue_def get_keys_walk)







subsection \<open>\<^verbatim>\<open>getPropertyValue\<close>\<close>

lemma segment_absent_walk:
  assumes "\<not> nullish obj"
  shows "segment_absent obj keys \<longleftrightarrow> nullish (walk obj keys)"
proof
  assume "segment_absent obj keys"
  then obtain n where "nullish (walk obj (take n keys))"
    unfolding segment_absent_def by blast
  then show "nullish (walk obj keys)" by (rule walk_prefix_nullish)
next
  assume n: "nullish (walk obj keys)"
  with assms have "keys \<noteq> []" by auto
  then have "0 < length keys \<and> length keys \<le> length keys
             \<and> nullish (walk obj (take (length keys) keys))"
    using n by simp
  then show "segment_absent obj keys"
    unfolding segment_absent_def by blast
qed

text \<open>
  C8. The claim returns the default exactly when an intermediate segment is absent or
  null, and the stored value otherwise. The code ends with
  \<^verbatim>\<open>return (current as T) ?? defaultValue\<close>: a leaf that is \<^verbatim>\<open>null\<close> (or missing) gives the
  default too. In \<^verbatim>\<open>{a: null}\<close> the path \<^verbatim>\<open>a\<close> has no intermediate segment and the stored
  value is \<^verbatim>\<open>null\<close>, yet the call returns the default.
\<close>

theorem C8_null_leaf_counterexample:
  "\<not> intermediate_absent (JObj [(''a'', JNull)]) (parsePath ''a'')
   \<and> walk (JObj [(''a'', JNull)]) (parsePath ''a'') = JNull
   \<and> getPropertyValue (JObj [(''a'', JNull)]) ''a'' (JNum (Fin 7)) = JNum (Fin 7)"
  by (simp add: intermediate_absent_def getPropertyValue_def parsePath_def lookup_def)

text \<open>
  C8, as amended. For every object, path and default, \<^verbatim>\<open>getPropertyValue\<close> returns the
  default exactly when the value reached after some segment of the path, the last one
  included, is \<^verbatim>\<open>undefined\<close> or \<^verbatim>\<open>null\<close>, and the value stored at the path otherwise.
  (The function of the model has no error to return: a property is only read from a
  value that the loop has tested not to be \<^verbatim>\<open>undefined\<close> or \<^verbatim>\<open>null\<close>.)
\<close>

theorem C8_getPropertyValue:
  "\<not> nullish obj \<Longrightarrow>
   getPropertyValue obj path d
   = (if segment_absent obj (parsePath path) then d else walk obj (parsePath path))"
  by (simp add: getPropertyValue_walk segment_absent_walk)

theorem C8_getPropertyValue_witness:
  "getPropertyValue (JObj [(''user'', JObj [(''name'', JStr ''John'')])]) ''user.name'' JUndefined
     = JStr ''John''
   \<and> getPropertyValue (JObj [(''user'', JObj [(''name'', JStr ''John'')])]) ''user.age.x''
       (JStr ''d'') = JStr ''d''"
proof -
  let ?obj = "JObj [(''user'', JObj [(''name'', JStr ''John'')])]"
  have n: "\<not> nullish ?obj" by simp
  have 1: "\<not> segment_absent ?obj (parsePath ''user.name'')"
    by (simp add: segment_absent_walk [OF n] parsePath_def lookup_def)
  have 2: "segment_absent ?obj (parsePath ''user.age.x'')"
    by (simp add: segment_absent_walk [OF n] parsePath_def lookup_def)
  show ?thesis
    using C8_getPropertyValue [OF n, of "''user.name''" JUndefined]
          C8_getPropertyValue [OF n, of "''user.age.x''" "JStr ''d''"] 1 2
    by (simp add: parsePath_def lookup_def)
qed

subsection \<open>\<^verbatim>\<open>insertAtIndex\<close>\<close>

lemma trunc_of_int: "trunc (of_int i) = i"
  by (simp add: trunc_def)

lemma insertAtIndex_walk:
  assumes "split_at path = (arrayPath, indexStr)" and "parse_index indexStr = Some i"
    and "walk obj (parsePath arrayPath) = JArr xs ps"
  shows "snd (insertAtIndex obj path v) = None
         \<and> walk (fst (insertAtIndex obj path v)) (parsePath arrayPath)
           = JArr (if i = - 1 then xs @ [v]
                   else if i < 0 then insert_before (nat (max (int (length xs) + i) 0)) v xs
                   else insert_before (nat i) v xs) ps"
proof -
  let ?f = "\<lambda>arr. if parse_index indexStr = Some (- 1) then array_push arr v
                  else array_splice_insert arr (parse_index indexStr) v"
  have obj: "is_object (walk obj (parsePath arrayPath))" using assms(3) by simp
  have "min (nat i) (length xs) = nat i \<or> length xs \<le> nat i" by linarith
  then have "take (min (nat i) (length xs)) xs @ v # drop (min (nat i) (length xs)) xs
             = take (nat i) xs @ v # drop (nat i) xs"
    by auto
  then have "fst (?f (JArr xs ps))
        = JArr (if i = - 1 then xs @ [v]
                else if i < 0 then insert_before (nat (max (int (length xs) + i) 0)) v xs
                else insert_before (nat i) v xs) ps
      \<and> snd (?f (JArr xs ps)) = None"
    using assms(2)
    by (simp add: splice_insert_def splice_start_def num_of_index_def trunc_of_int
          insert_before_def Let_def)
  with modify_at_walk [OF obj, of ?f] assms(1,3) show ?thesis
    by (simp only: insertAtIndex_def prod.case)
qed

text \<open>
  C4. The claim appends for every negative index. The code appends for \<^verbatim>\<open>-1\<close> only
  (\<^verbatim>\<open>if (index === -1) arr.push(value)\<close>); any other negative index goes to
  \<^verbatim>\<open>splice(index, 0, value)\<close>, which counts from the end: \<^verbatim>\<open>items@-2\<close> on \<^verbatim>\<open>["a", "b"]\<close>
  inserts at the front.
\<close>

theorem C4_negative_index_counterexample:
  "split_at ''items@-2'' = (''items'', Some ''-2'') \<and> parse_index (Some ''-2'') = Some (- 2)
   \<and> insertAtIndex (JObj [(''items'', JArr [JStr ''a'', JStr ''b''] [])]) ''items@-2'' (JStr ''v'')
       = (JObj [(''items'', JArr [JStr ''v'', JStr ''a'', JStr ''b''] [])], None)"
  by (simp add: path_engine_evals)

text \<open>
  C4, as amended. When the array path resolves to an array \<open>a\<close>, \<^verbatim>\<open>insertAtIndex\<close> never
  rejects the index: with index \<^verbatim>\<open>-1\<close> it appends \<open>v\<close> at the end of \<open>a\<close>; with another
  negative index \<open>i\<close> it inserts \<open>v\<close> before position \<open>max (length a + i) 0\<close>; with a
  non-negative index \<open>i\<close> it inserts \<open>v\<close> before position \<open>i\<close>, which for an index greater
  than or equal to the length of \<open>a\<close> is the end.
\<close>

theorem C4_insertAtIndex:
  assumes "split_at path = (arrayPath, indexStr)" and "parse_index indexStr = Some i"
    and "walk obj (parsePath arrayPath) = JArr xs ps"
  shows "snd (insertAtIndex obj path v) = None
         \<and> walk (fst (insertAtIndex obj path v)) (parsePath arrayPath)
           = JArr (if i = - 1 then xs @ [v]
                   else if i < 0 then insert_before (nat (max (int (length xs) + i) 0)) v xs
                   else insert_before (nat i) v xs) ps
         \<and> (int (length xs) \<le> i \<longrightarrow> insert_before (nat i) v xs = xs @ [v])"
  using insertAtIndex_walk [OF assms] by (simp add: insert_before_def)

theorem C4_insertAtIndex_witness:
  "walk (fst (insertAtIndex (JObj [(''items'', JArr [JStr ''a'', JStr ''b''] [])]) ''items@7''
           (JStr ''v''))) [''items'']
   = JArr [JStr ''a'', JStr ''b'', JStr ''v''] []"
proof -
  let ?obj = "JObj [(''items'', JArr [JStr ''a'', JStr ''b''] [])]"
  have 1: "split_at ''items@7'' = (''items'', Some ''7'')" by (simp add: split_at_def)
  have 2: "parse_index (Some ''7'') = Some 7" by (simp add: path_engine_evals)
  have 3: "walk ?obj (parsePath ''items'') = JArr [JStr ''a'', JStr ''b''] []"
    by (simp add: parsePath_def lookup_def)
  have 4: "parsePath ''items'' = [''items'']" by (simp add: parsePath_def)
  show ?thesis
    using C4_insertAtIndex [OF 1 2 3, of "JStr ''v''"] 4 by (simp add: insert_before_def)
qed

subsection \<open>\<^verbatim>\<open>deleteProperty\<close>\<close>

lemma ident_start_facts:
  assumes "ident_start c"
  shows "\<not> whitespace c" "\<not> digit c" "c \<noteq> CHR ''0''" "c \<noteq> CHR ''-''" "c \<noteq> CHR ''+''"
    "c \<noteq> CHR ''.''"
  using assms by (auto simp: ident_start_def whitespace_def digit_def)

lemma ident_char_not_whitespace: "ident_char c \<Longrightarrow> \<not> whitespace c"
  by (auto simp: ident_char_def ident_start_def whitespace_def digit_def)

lemma js_trim_identifier:
  assumes "g_identifier k"
  shows "js_trim k = k"
proof -
  from assms obtain c cs where k: "k = c # cs" and c: "ident_start c"
    and cs: "list_all ident_char cs"
    by (auto simp: g_identifier_def split: list.splits)
  have 1: "dropWhile whitespace k = k" using k c ident_start_facts(1) by simp
  have "\<not> whitespace (last k)"
  proof (cases cs)
    case Nil
    with k c show ?thesis using ident_start_facts(1) by simp
  next
    case (Cons a as)
    then have "last k = last cs" "last cs \<in> set cs" using k by simp_all
    with cs show ?thesis
      using ident_char_not_whitespace by (auto simp: list_all_iff)
  qed
  moreover have "hd (rev k) = last k" by (simp add: hd_rev)
  ultimately have "dropWhile whitespace (rev k) = rev k"
    using k by (cases "rev k") auto
  with 1 show ?thesis by (simp add: js_trim_def)
qed

lemma Number_js_identifier:
  assumes "g_identifier k"
  shows "Number_js k = (if k = ''Infinity'' then PosInf else NaN)"
proof -
  from assms obtain c cs where k: "k = c # cs" and c: "ident_start c"
    by (auto simp: g_identifier_def split: list.splits)
  note f = ident_start_facts [OF c]
  have r: "radix_of_prefix k = None"
    using k f(3) by (simp add: radix_of_prefix_def split: list.splits)
  have u: "str_unsigned_decimal k = (if k = ''Infinity'' then PosInf else NaN)"
    using k f(2,6) by (simp add: str_unsigned_decimal_def)
  have "str_numeric_literal k = str_unsigned_decimal k"
    using r k f(4,5) by (simp add: str_numeric_literal_def)
  with u have n: "str_numeric_literal k = (if k = ''Infinity'' then PosInf else NaN)"
    by simp
  have ne: "k \<noteq> []" using k by simp
  show ?thesis
    by (simp only: Number_js_def Let_def js_trim_identifier [OF assms] ne n if_False)
qed

lemma delete_keys_walk:
  assumes "is_object (walk cur pre)"
  shows "walk (fst (delete_keys cur (pre @ [k]))) pre = fst (delete_last (walk cur pre) k)
         \<and> snd (delete_keys cur (pre @ [k])) = snd (delete_last (walk cur pre) k)"
  using assms
proof (induction pre arbitrary: cur)
  case Nil
  then show ?case by simp
next
  case (Cons p pre)
  obtain q rest where qr: "pre @ [k] = q # rest" by (cases pre) auto
  from Cons.prems have obj: "is_object cur" by (rule walk_object_start)
  then have nn: "\<not> nullish cur" by (rule is_object_not_nullish)
  with Cons.prems have w: "is_object (walk (get_prop cur p) pre)" by simp
  then have objc: "is_object (get_prop cur p)" by (rule walk_object_start)
  then have nnc: "\<not> nullish (get_prop cur p)" by (rule is_object_not_nullish)
  obtain c r where D: "delete_keys (get_prop cur p) (q # rest) = (c, r)"
    by (cases "delete_keys (get_prop cur p) (q # rest)")
  have "delete_keys cur (p # q # rest) = (with_prop cur p c, r)"
    using nn nnc D by simp
  moreover have "\<not> nullish (with_prop cur p c)" using nn by (simp add: with_prop_kind)
  moreover have "get_prop (with_prop cur p c) p = c" using objc by (rule get_prop_with_prop)
  ultimately show ?case using Cons.IH [OF w] D nn qr by simp
qed

text \<open>
  C10. The claim removes the first element for every final key that is a non-numeric
  identifier, because the key coerces to \<^verbatim>\<open>NaN\<close>. One identifier does not:
  \<^verbatim>\<open>Number("Infinity")\<close> is \<^verbatim>\<open>Infinity\<close>, \<^verbatim>\<open>splice(Infinity, 1)\<close> starts at the length of the
  array and removes nothing.
\<close>

theorem C10_Infinity_key_counterexample:
  "g_identifier ''Infinity'' \<and> \<not> regex_test (Rep1 (Cls digit)) ''Infinity''
   \<and> deleteProperty (JObj [(''items'', JArr [JStr ''a'', JStr ''b''] [])]) ''items.Infinity''
       = (JObj [(''items'', JArr [JStr ''a'', JStr ''b''] [])], None)"
proof -
  have "g_identifier ''Infinity''"
    by (simp add: g_identifier_def ident_start_def ident_char_def digit_def)
  moreover have "\<not> regex_test (Rep1 (Cls digit)) ''Infinity''"
    by (simp add: digit_def)
  moreover have "Number_js ''Infinity'' = PosInf"
    by (simp add: Number_js_def js_trim_def whitespace_def str_numeric_literal_def
          radix_of_prefix_def str_unsigned_decimal_def)
  then have "deleteProperty (JObj [(''items'', JArr [JStr ''a'', JStr ''b''] [])]) ''items.Infinity''
       = (JObj [(''items'', JArr [JStr ''a'', JStr ''b''] [])], None)"
    by (simp add: deleteProperty_def parsePath_def lookup_def splice_remove_def splice_start_def)
  ultimately show ?thesis by blast
qed

text \<open>
  C10, as amended. For every object and path whose keys but the last lead to an array,
  when the last key is an identifier, \<^verbatim>\<open>deleteProperty\<close> completes and removes the first
  element of that array (none from an empty array), unless the identifier is
  \<^verbatim>\<open>Infinity\<close>, for which the array is left as it is.
\<close>

theorem C10_deleteProperty_identifier_key:
  assumes "parsePath path = pre @ [k]" and "walk obj pre = JArr xs ps" and "g_identifier k"
  shows "snd (deleteProperty obj path) = None
         \<and> walk (fst (deleteProperty obj path)) pre
           = JArr (if k = ''Infinity'' then xs else tl xs) ps"
proof -
  have obj: "is_object (walk obj pre)" using assms(2) by simp
  have "splice_remove xs (Number_js k) = (if k = ''Infinity'' then xs else tl xs)"
    using Number_js_identifier [OF assms(3)]
    by (simp add: splice_remove_def splice_start_def drop_Suc)
  with delete_keys_walk [OF obj, of k] assms(1,2) show ?thesis
    by (simp add: deleteProperty_def)
qed

theorem C10_deleteProperty_identifier_key_witness:
  "walk (fst (deleteProperty (JObj [(''items'', JArr [JStr ''a'', JStr ''b''] [])]) ''items.x''))
     [''items'']
   = JArr [JStr ''b''] []"
proof -
  let ?obj = "JObj [(''items'', JArr [JStr ''a'', JStr ''b''] [])]"
  have 1: "parsePath ''items.x'' = [''items''] @ [''x'']" by (simp add: parsePath_def)
  have 2: "walk ?obj [''items''] = JArr [JStr ''a'', JStr ''b''] []" by (simp add: lookup_def)
  have 3: "g_identifier ''x''" by (simp add: g_identifier_def ident_start_def)
  show ?thesis
    using C10_deleteProperty_identifier_key [OF 1 2 3] by simp
qed

subsection \<open>The copy-producing entry points\<close>































































end
